theory Spec2Isabelle
  imports Main
begin

section \<open>Python strings\<close>

text \<open>
  A Python \<open>str\<close> is a sequence of Unicode code points, so it is modelled as a list of
  natural numbers (one per code point), not as a list of bytes. String literals of the
  sources that are pure ASCII are written \<open>py ''...''\<close>; other code points are given
  by number.
\<close>

type_synonym pystr = "nat list"

definition py :: "string \<Rightarrow> pystr" where
  "py cs = map of_char cs"

text \<open>
  \<open>print(x)\<close> writes \<open>x\<close> and a newline to standard output. Standard output is the list
  of the chunks written, in order.
\<close>

definition py_print :: "pystr \<Rightarrow> pystr list" where
  "py_print x = [x @ [0x0A]]"

section \<open>Unicode character data\<close>

text \<open>
  \<open>str.strip\<close>, \<open>str.lower\<close> and \<open>re.IGNORECASE\<close> are defined by the Unicode character
  database that the interpreter carries. The tables below are those of Unicode 14.0.0
  (CPython 3.11): the code points \<open>str.isspace\<close> accepts, the simple lowercase mapping,
  and the properties Cased and Case_Ignorable that the final-sigma rule of \<open>str.lower\<close>
  consults.
\<close>

definition in_ranges :: "(nat \<times> nat) list \<Rightarrow> nat \<Rightarrow> bool" where
  "in_ranges rs c = list_ex (\<lambda>r. fst r \<le> c \<and> c \<le> snd r) rs"

definition whitespace_ranges :: "(nat \<times> nat) list" where
  "whitespace_ranges =
     [(0x09, 0x0D), (0x1C, 0x20), (0x85, 0x85), (0xA0, 0xA0), (0x1680, 0x1680),
      (0x2000, 0x200A), (0x2028, 0x2029), (0x202F, 0x202F), (0x205F, 0x205F),
      (0x3000, 0x3000)]"

definition py_isspace :: "nat \<Rightarrow> bool" where
  "py_isspace c = in_ranges whitespace_ranges c"

text \<open>
  An entry \<open>(lo, hi, step, target)\<close> of the lowercase table maps the code points
  \<open>lo, lo + step, ...\<close> up to \<open>hi\<close> to \<open>target, target + step, ...\<close>; a code point that
  no entry covers is its own lowercase.
\<close>

definition lowercase_table :: "(nat \<times> nat \<times> nat \<times> nat) list" where
  "lowercase_table =
  [
   (0x41, 0x5A, 1, 0x61), (0xC0, 0xD6, 1, 0xE0), (0xD8, 0xDE, 1, 0xF8),
   (0x100, 0x12E, 2, 0x101), (0x130, 0x130, 1, 0x69), (0x132, 0x136, 2, 0x133),
   (0x139, 0x147, 2, 0x13A), (0x14A, 0x176, 2, 0x14B), (0x178, 0x178, 1, 0xFF),
   (0x179, 0x17D, 2, 0x17A), (0x181, 0x181, 1, 0x253), (0x182, 0x184, 2, 0x183),
   (0x186, 0x186, 1, 0x254), (0x187, 0x187, 1, 0x188), (0x189, 0x18A, 1, 0x256),
   (0x18B, 0x18B, 1, 0x18C), (0x18E, 0x18E, 1, 0x1DD), (0x18F, 0x18F, 1, 0x259),
   (0x190, 0x190, 1, 0x25B), (0x191, 0x191, 1, 0x192), (0x193, 0x193, 1, 0x260),
   (0x194, 0x194, 1, 0x263), (0x196, 0x196, 1, 0x269), (0x197, 0x197, 1, 0x268),
   (0x198, 0x198, 1, 0x199), (0x19C, 0x19C, 1, 0x26F), (0x19D, 0x19D, 1, 0x272),
   (0x19F, 0x19F, 1, 0x275), (0x1A0, 0x1A4, 2, 0x1A1), (0x1A6, 0x1A6, 1, 0x280),
   (0x1A7, 0x1A7, 1, 0x1A8), (0x1A9, 0x1A9, 1, 0x283), (0x1AC, 0x1AC, 1, 0x1AD),
   (0x1AE, 0x1AE, 1, 0x288), (0x1AF, 0x1AF, 1, 0x1B0), (0x1B1, 0x1B2, 1, 0x28A),
   (0x1B3, 0x1B5, 2, 0x1B4), (0x1B7, 0x1B7, 1, 0x292), (0x1B8, 0x1B8, 1, 0x1B9),
   (0x1BC, 0x1BC, 1, 0x1BD), (0x1C4, 0x1C4, 1, 0x1C6), (0x1C5, 0x1C5, 1, 0x1C6),
   (0x1C7, 0x1C7, 1, 0x1C9), (0x1C8, 0x1C8, 1, 0x1C9), (0x1CA, 0x1CA, 1, 0x1CC),
   (0x1CB, 0x1DB, 2, 0x1CC), (0x1DE, 0x1EE, 2, 0x1DF), (0x1F1, 0x1F1, 1, 0x1F3),
   (0x1F2, 0x1F4, 2, 0x1F3), (0x1F6, 0x1F6, 1, 0x195), (0x1F7, 0x1F7, 1, 0x1BF),
   (0x1F8, 0x21E, 2, 0x1F9), (0x220, 0x220, 1, 0x19E), (0x222, 0x232, 2, 0x223),
   (0x23A, 0x23A, 1, 0x2C65), (0x23B, 0x23B, 1, 0x23C), (0x23D, 0x23D, 1, 0x19A),
   (0x23E, 0x23E, 1, 0x2C66), (0x241, 0x241, 1, 0x242), (0x243, 0x243, 1, 0x180),
   (0x244, 0x244, 1, 0x289), (0x245, 0x245, 1, 0x28C), (0x246, 0x24E, 2, 0x247),
   (0x370, 0x372, 2, 0x371), (0x376, 0x376, 1, 0x377), (0x37F, 0x37F, 1, 0x3F3),
   (0x386, 0x386, 1, 0x3AC), (0x388, 0x38A, 1, 0x3AD), (0x38C, 0x38C, 1, 0x3CC),
   (0x38E, 0x38F, 1, 0x3CD), (0x391, 0x3A1, 1, 0x3B1), (0x3A3, 0x3AB, 1, 0x3C3),
   (0x3CF, 0x3CF, 1, 0x3D7), (0x3D8, 0x3EE, 2, 0x3D9), (0x3F4, 0x3F4, 1, 0x3B8),
   (0x3F7, 0x3F7, 1, 0x3F8), (0x3F9, 0x3F9, 1, 0x3F2), (0x3FA, 0x3FA, 1, 0x3FB),
   (0x3FD, 0x3FF, 1, 0x37B), (0x400, 0x40F, 1, 0x450), (0x410, 0x42F, 1, 0x430),
   (0x460, 0x480, 2, 0x461), (0x48A, 0x4BE, 2, 0x48B), (0x4C0, 0x4C0, 1, 0x4CF),
   (0x4C1, 0x4CD, 2, 0x4C2), (0x4D0, 0x52E, 2, 0x4D1), (0x531, 0x556, 1, 0x561),
   (0x10A0, 0x10C5, 1, 0x2D00), (0x10C7, 0x10C7, 1, 0x2D27),
   (0x10CD, 0x10CD, 1, 0x2D2D), (0x13A0, 0x13EF, 1, 0xAB70),
   (0x13F0, 0x13F5, 1, 0x13F8), (0x1C90, 0x1CBA, 1, 0x10D0),
   (0x1CBD, 0x1CBF, 1, 0x10FD), (0x1E00, 0x1E94, 2, 0x1E01), (0x1E9E, 0x1E9E, 1, 0xDF),
   (0x1EA0, 0x1EFE, 2, 0x1EA1), (0x1F08, 0x1F0F, 1, 0x1F00),
   (0x1F18, 0x1F1D, 1, 0x1F10), (0x1F28, 0x1F2F, 1, 0x1F20),
   (0x1F38, 0x1F3F, 1, 0x1F30), (0x1F48, 0x1F4D, 1, 0x1F40),
   (0x1F59, 0x1F5F, 2, 0x1F51), (0x1F68, 0x1F6F, 1, 0x1F60),
   (0x1F88, 0x1F8F, 1, 0x1F80), (0x1F98, 0x1F9F, 1, 0x1F90),
   (0x1FA8, 0x1FAF, 1, 0x1FA0), (0x1FB8, 0x1FB9, 1, 0x1FB0),
   (0x1FBA, 0x1FBB, 1, 0x1F70), (0x1FBC, 0x1FBC, 1, 0x1FB3),
   (0x1FC8, 0x1FCB, 1, 0x1F72), (0x1FCC, 0x1FCC, 1, 0x1FC3),
   (0x1FD8, 0x1FD9, 1, 0x1FD0), (0x1FDA, 0x1FDB, 1, 0x1F76),
   (0x1FE8, 0x1FE9, 1, 0x1FE0), (0x1FEA, 0x1FEB, 1, 0x1F7A),
   (0x1FEC, 0x1FEC, 1, 0x1FE5), (0x1FF8, 0x1FF9, 1, 0x1F78),
   (0x1FFA, 0x1FFB, 1, 0x1F7C), (0x1FFC, 0x1FFC, 1, 0x1FF3),
   (0x2126, 0x2126, 1, 0x3C9), (0x212A, 0x212A, 1, 0x6B), (0x212B, 0x212B, 1, 0xE5),
   (0x2132, 0x2132, 1, 0x214E), (0x2160, 0x216F, 1, 0x2170),
   (0x2183, 0x2183, 1, 0x2184), (0x24B6, 0x24CF, 1, 0x24D0),
   (0x2C00, 0x2C2F, 1, 0x2C30), (0x2C60, 0x2C60, 1, 0x2C61),
   (0x2C62, 0x2C62, 1, 0x26B), (0x2C63, 0x2C63, 1, 0x1D7D), (0x2C64, 0x2C64, 1, 0x27D),
   (0x2C67, 0x2C6B, 2, 0x2C68), (0x2C6D, 0x2C6D, 1, 0x251), (0x2C6E, 0x2C6E, 1, 0x271),
   (0x2C6F, 0x2C6F, 1, 0x250), (0x2C70, 0x2C70, 1, 0x252), (0x2C72, 0x2C72, 1, 0x2C73),
   (0x2C75, 0x2C75, 1, 0x2C76), (0x2C7E, 0x2C7F, 1, 0x23F),
   (0x2C80, 0x2CE2, 2, 0x2C81), (0x2CEB, 0x2CED, 2, 0x2CEC),
   (0x2CF2, 0x2CF2, 1, 0x2CF3), (0xA640, 0xA66C, 2, 0xA641),
   (0xA680, 0xA69A, 2, 0xA681), (0xA722, 0xA72E, 2, 0xA723),
   (0xA732, 0xA76E, 2, 0xA733), (0xA779, 0xA77B, 2, 0xA77A),
   (0xA77D, 0xA77D, 1, 0x1D79), (0xA77E, 0xA786, 2, 0xA77F),
   (0xA78B, 0xA78B, 1, 0xA78C), (0xA78D, 0xA78D, 1, 0x265),
   (0xA790, 0xA792, 2, 0xA791), (0xA796, 0xA7A8, 2, 0xA797),
   (0xA7AA, 0xA7AA, 1, 0x266), (0xA7AB, 0xA7AB, 1, 0x25C), (0xA7AC, 0xA7AC, 1, 0x261),
   (0xA7AD, 0xA7AD, 1, 0x26C), (0xA7AE, 0xA7AE, 1, 0x26A), (0xA7B0, 0xA7B0, 1, 0x29E),
   (0xA7B1, 0xA7B1, 1, 0x287), (0xA7B2, 0xA7B2, 1, 0x29D), (0xA7B3, 0xA7B3, 1, 0xAB53),
   (0xA7B4, 0xA7C2, 2, 0xA7B5), (0xA7C4, 0xA7C4, 1, 0xA794),
   (0xA7C5, 0xA7C5, 1, 0x282), (0xA7C6, 0xA7C6, 1, 0x1D8E),
   (0xA7C7, 0xA7C9, 2, 0xA7C8), (0xA7D0, 0xA7D0, 1, 0xA7D1),
   (0xA7D6, 0xA7D8, 2, 0xA7D7), (0xA7F5, 0xA7F5, 1, 0xA7F6),
   (0xFF21, 0xFF3A, 1, 0xFF41), (0x10400, 0x10427, 1, 0x10428),
   (0x104B0, 0x104D3, 1, 0x104D8), (0x10570, 0x1057A, 1, 0x10597),
   (0x1057C, 0x1058A, 1, 0x105A3), (0x1058C, 0x10592, 1, 0x105B3),
   (0x10594, 0x10595, 1, 0x105BB), (0x10C80, 0x10CB2, 1, 0x10CC0),
   (0x118A0, 0x118BF, 1, 0x118C0), (0x16E40, 0x16E5F, 1, 0x16E60),
   (0x1E900, 0x1E921, 1, 0x1E922)
  ]"

definition covers :: "nat \<times> nat \<times> nat \<times> nat \<Rightarrow> nat \<Rightarrow> bool" where
  "covers e c =
     (case e of (lo, hi, step, target) \<Rightarrow> lo \<le> c \<and> c \<le> hi \<and> (c - lo) mod step = 0)"

definition image_of :: "nat \<times> nat \<times> nat \<times> nat \<Rightarrow> nat \<Rightarrow> nat" where
  "image_of e c = (case e of (lo, hi, step, target) \<Rightarrow> target + (c - lo))"

definition unicode_tolower :: "nat \<Rightarrow> nat" where
  "unicode_tolower c =
     (case find (\<lambda>e. covers e c) lowercase_table of
        None \<Rightarrow> c
      | Some e \<Rightarrow> image_of e c)"

text \<open>
  The full lowercase mapping differs from the simple one at a single code point:
  U+0130 (capital I with dot above) becomes \<open>i\<close> followed by U+0307.
\<close>

definition tolower_full :: "nat \<Rightarrow> pystr" where
  "tolower_full c = (if c = 0x130 then [0x69, 0x307] else [unicode_tolower c])"

definition case_ignorable_ranges :: "(nat \<times> nat) list" where
  "case_ignorable_ranges =
  [
   (0x27, 0x27), (0x2E, 0x2E), (0x3A, 0x3A), (0x5E, 0x5E), (0x60, 0x60), (0xA8, 0xA8),
   (0xAD, 0xAD), (0xAF, 0xAF), (0xB4, 0xB4), (0xB7, 0xB8), (0x2B0, 0x36F),
   (0x374, 0x375), (0x37A, 0x37A), (0x384, 0x385), (0x387, 0x387), (0x483, 0x489),
   (0x559, 0x559), (0x55F, 0x55F), (0x591, 0x5BD), (0x5BF, 0x5BF), (0x5C1, 0x5C2),
   (0x5C4, 0x5C5), (0x5C7, 0x5C7), (0x5F4, 0x5F4), (0x600, 0x605), (0x610, 0x61A),
   (0x61C, 0x61C), (0x640, 0x640), (0x64B, 0x65F), (0x670, 0x670), (0x6D6, 0x6DD),
   (0x6DF, 0x6E8), (0x6EA, 0x6ED), (0x70F, 0x70F), (0x711, 0x711), (0x730, 0x74A),
   (0x7A6, 0x7B0), (0x7EB, 0x7F5), (0x7FA, 0x7FA), (0x7FD, 0x7FD), (0x816, 0x82D),
   (0x859, 0x85B), (0x888, 0x888), (0x890, 0x891), (0x898, 0x89F), (0x8C9, 0x902),
   (0x93A, 0x93A), (0x93C, 0x93C), (0x941, 0x948), (0x94D, 0x94D), (0x951, 0x957),
   (0x962, 0x963), (0x971, 0x971), (0x981, 0x981), (0x9BC, 0x9BC), (0x9C1, 0x9C4),
   (0x9CD, 0x9CD), (0x9E2, 0x9E3), (0x9FE, 0x9FE), (0xA01, 0xA02), (0xA3C, 0xA3C),
   (0xA41, 0xA42), (0xA47, 0xA48), (0xA4B, 0xA4D), (0xA51, 0xA51), (0xA70, 0xA71),
   (0xA75, 0xA75), (0xA81, 0xA82), (0xABC, 0xABC), (0xAC1, 0xAC5), (0xAC7, 0xAC8),
   (0xACD, 0xACD), (0xAE2, 0xAE3), (0xAFA, 0xAFF), (0xB01, 0xB01), (0xB3C, 0xB3C),
   (0xB3F, 0xB3F), (0xB41, 0xB44), (0xB4D, 0xB4D), (0xB55, 0xB56), (0xB62, 0xB63),
   (0xB82, 0xB82), (0xBC0, 0xBC0), (0xBCD, 0xBCD), (0xC00, 0xC00), (0xC04, 0xC04),
   (0xC3C, 0xC3C), (0xC3E, 0xC40), (0xC46, 0xC48), (0xC4A, 0xC4D), (0xC55, 0xC56),
   (0xC62, 0xC63), (0xC81, 0xC81), (0xCBC, 0xCBC), (0xCBF, 0xCBF), (0xCC6, 0xCC6),
   (0xCCC, 0xCCD), (0xCE2, 0xCE3), (0xD00, 0xD01), (0xD3B, 0xD3C), (0xD41, 0xD44),
   (0xD4D, 0xD4D), (0xD62, 0xD63), (0xD81, 0xD81), (0xDCA, 0xDCA), (0xDD2, 0xDD4),
   (0xDD6, 0xDD6), (0xE31, 0xE31), (0xE34, 0xE3A), (0xE46, 0xE4E), (0xEB1, 0xEB1),
   (0xEB4, 0xEBC), (0xEC6, 0xEC6), (0xEC8, 0xECD), (0xF18, 0xF19), (0xF35, 0xF35),
   (0xF37, 0xF37), (0xF39, 0xF39), (0xF71, 0xF7E), (0xF80, 0xF84), (0xF86, 0xF87),
   (0xF8D, 0xF97), (0xF99, 0xFBC), (0xFC6, 0xFC6), (0x102D, 0x1030), (0x1032, 0x1037),
   (0x1039, 0x103A), (0x103D, 0x103E), (0x1058, 0x1059), (0x105E, 0x1060),
   (0x1071, 0x1074), (0x1082, 0x1082), (0x1085, 0x1086), (0x108D, 0x108D),
   (0x109D, 0x109D), (0x10FC, 0x10FC), (0x135D, 0x135F), (0x1712, 0x1714),
   (0x1732, 0x1733), (0x1752, 0x1753), (0x1772, 0x1773), (0x17B4, 0x17B5),
   (0x17B7, 0x17BD), (0x17C6, 0x17C6), (0x17C9, 0x17D3), (0x17D7, 0x17D7),
   (0x17DD, 0x17DD), (0x180B, 0x180F), (0x1843, 0x1843), (0x1885, 0x1886),
   (0x18A9, 0x18A9), (0x1920, 0x1922), (0x1927, 0x1928), (0x1932, 0x1932),
   (0x1939, 0x193B), (0x1A17, 0x1A18), (0x1A1B, 0x1A1B), (0x1A56, 0x1A56),
   (0x1A58, 0x1A5E), (0x1A60, 0x1A60), (0x1A62, 0x1A62), (0x1A65, 0x1A6C),
   (0x1A73, 0x1A7C), (0x1A7F, 0x1A7F), (0x1AA7, 0x1AA7), (0x1AB0, 0x1ACE),
   (0x1B00, 0x1B03), (0x1B34, 0x1B34), (0x1B36, 0x1B3A), (0x1B3C, 0x1B3C),
   (0x1B42, 0x1B42), (0x1B6B, 0x1B73), (0x1B80, 0x1B81), (0x1BA2, 0x1BA5),
   (0x1BA8, 0x1BA9), (0x1BAB, 0x1BAD), (0x1BE6, 0x1BE6), (0x1BE8, 0x1BE9),
   (0x1BED, 0x1BED), (0x1BEF, 0x1BF1), (0x1C2C, 0x1C33), (0x1C36, 0x1C37),
   (0x1C78, 0x1C7D), (0x1CD0, 0x1CD2), (0x1CD4, 0x1CE0), (0x1CE2, 0x1CE8),
   (0x1CED, 0x1CED), (0x1CF4, 0x1CF4), (0x1CF8, 0x1CF9), (0x1D2C, 0x1D6A),
   (0x1D78, 0x1D78), (0x1D9B, 0x1DFF), (0x1FBD, 0x1FBD), (0x1FBF, 0x1FC1),
   (0x1FCD, 0x1FCF), (0x1FDD, 0x1FDF), (0x1FED, 0x1FEF), (0x1FFD, 0x1FFE),
   (0x200B, 0x200F), (0x2018, 0x2019), (0x2024, 0x2024), (0x2027, 0x2027),
   (0x202A, 0x202E), (0x2060, 0x2064), (0x2066, 0x206F), (0x2071, 0x2071),
   (0x207F, 0x207F), (0x2090, 0x209C), (0x20D0, 0x20F0), (0x2C7C, 0x2C7D),
   (0x2CEF, 0x2CF1), (0x2D6F, 0x2D6F), (0x2D7F, 0x2D7F), (0x2DE0, 0x2DFF),
   (0x2E2F, 0x2E2F), (0x3005, 0x3005), (0x302A, 0x302D), (0x3031, 0x3035),
   (0x303B, 0x303B), (0x3099, 0x309E), (0x30FC, 0x30FE), (0xA015, 0xA015),
   (0xA4F8, 0xA4FD), (0xA60C, 0xA60C), (0xA66F, 0xA672), (0xA674, 0xA67D),
   (0xA67F, 0xA67F), (0xA69C, 0xA69F), (0xA6F0, 0xA6F1), (0xA700, 0xA721),
   (0xA770, 0xA770), (0xA788, 0xA78A), (0xA7F2, 0xA7F4), (0xA7F8, 0xA7F9),
   (0xA802, 0xA802), (0xA806, 0xA806), (0xA80B, 0xA80B), (0xA825, 0xA826),
   (0xA82C, 0xA82C), (0xA8C4, 0xA8C5), (0xA8E0, 0xA8F1), (0xA8FF, 0xA8FF),
   (0xA926, 0xA92D), (0xA947, 0xA951), (0xA980, 0xA982), (0xA9B3, 0xA9B3),
   (0xA9B6, 0xA9B9), (0xA9BC, 0xA9BD), (0xA9CF, 0xA9CF), (0xA9E5, 0xA9E6),
   (0xAA29, 0xAA2E), (0xAA31, 0xAA32), (0xAA35, 0xAA36), (0xAA43, 0xAA43),
   (0xAA4C, 0xAA4C), (0xAA70, 0xAA70), (0xAA7C, 0xAA7C), (0xAAB0, 0xAAB0),
   (0xAAB2, 0xAAB4), (0xAAB7, 0xAAB8), (0xAABE, 0xAABF), (0xAAC1, 0xAAC1),
   (0xAADD, 0xAADD), (0xAAEC, 0xAAED), (0xAAF3, 0xAAF4), (0xAAF6, 0xAAF6),
   (0xAB5B, 0xAB5F), (0xAB69, 0xAB6B), (0xABE5, 0xABE5), (0xABE8, 0xABE8),
   (0xABED, 0xABED), (0xFB1E, 0xFB1E), (0xFBB2, 0xFBC2), (0xFE00, 0xFE0F),
   (0xFE13, 0xFE13), (0xFE20, 0xFE2F), (0xFE52, 0xFE52), (0xFE55, 0xFE55),
   (0xFEFF, 0xFEFF), (0xFF07, 0xFF07), (0xFF0E, 0xFF0E), (0xFF1A, 0xFF1A),
   (0xFF3E, 0xFF3E), (0xFF40, 0xFF40), (0xFF70, 0xFF70), (0xFF9E, 0xFF9F),
   (0xFFE3, 0xFFE3), (0xFFF9, 0xFFFB), (0x101FD, 0x101FD), (0x102E0, 0x102E0),
   (0x10376, 0x1037A), (0x10780, 0x10785), (0x10787, 0x107B0), (0x107B2, 0x107BA),
   (0x10A01, 0x10A03), (0x10A05, 0x10A06), (0x10A0C, 0x10A0F), (0x10A38, 0x10A3A),
   (0x10A3F, 0x10A3F), (0x10AE5, 0x10AE6), (0x10D24, 0x10D27), (0x10EAB, 0x10EAC),
   (0x10F46, 0x10F50), (0x10F82, 0x10F85), (0x11001, 0x11001), (0x11038, 0x11046),
   (0x11070, 0x11070), (0x11073, 0x11074), (0x1107F, 0x11081), (0x110B3, 0x110B6),
   (0x110B9, 0x110BA), (0x110BD, 0x110BD), (0x110C2, 0x110C2), (0x110CD, 0x110CD),
   (0x11100, 0x11102), (0x11127, 0x1112B), (0x1112D, 0x11134), (0x11173, 0x11173),
   (0x11180, 0x11181), (0x111B6, 0x111BE), (0x111C9, 0x111CC), (0x111CF, 0x111CF),
   (0x1122F, 0x11231), (0x11234, 0x11234), (0x11236, 0x11237), (0x1123E, 0x1123E),
   (0x112DF, 0x112DF), (0x112E3, 0x112EA), (0x11300, 0x11301), (0x1133B, 0x1133C),
   (0x11340, 0x11340), (0x11366, 0x1136C), (0x11370, 0x11374), (0x11438, 0x1143F),
   (0x11442, 0x11444), (0x11446, 0x11446), (0x1145E, 0x1145E), (0x114B3, 0x114B8),
   (0x114BA, 0x114BA), (0x114BF, 0x114C0), (0x114C2, 0x114C3), (0x115B2, 0x115B5),
   (0x115BC, 0x115BD), (0x115BF, 0x115C0), (0x115DC, 0x115DD), (0x11633, 0x1163A),
   (0x1163D, 0x1163D), (0x1163F, 0x11640), (0x116AB, 0x116AB), (0x116AD, 0x116AD),
   (0x116B0, 0x116B5), (0x116B7, 0x116B7), (0x1171D, 0x1171F), (0x11722, 0x11725),
   (0x11727, 0x1172B), (0x1182F, 0x11837), (0x11839, 0x1183A), (0x1193B, 0x1193C),
   (0x1193E, 0x1193E), (0x11943, 0x11943), (0x119D4, 0x119D7), (0x119DA, 0x119DB),
   (0x119E0, 0x119E0), (0x11A01, 0x11A0A), (0x11A33, 0x11A38), (0x11A3B, 0x11A3E),
   (0x11A47, 0x11A47), (0x11A51, 0x11A56), (0x11A59, 0x11A5B), (0x11A8A, 0x11A96),
   (0x11A98, 0x11A99), (0x11C30, 0x11C36), (0x11C38, 0x11C3D), (0x11C3F, 0x11C3F),
   (0x11C92, 0x11CA7), (0x11CAA, 0x11CB0), (0x11CB2, 0x11CB3), (0x11CB5, 0x11CB6),
   (0x11D31, 0x11D36), (0x11D3A, 0x11D3A), (0x11D3C, 0x11D3D), (0x11D3F, 0x11D45),
   (0x11D47, 0x11D47), (0x11D90, 0x11D91), (0x11D95, 0x11D95), (0x11D97, 0x11D97),
   (0x11EF3, 0x11EF4), (0x13430, 0x13438), (0x16AF0, 0x16AF4), (0x16B30, 0x16B36),
   (0x16B40, 0x16B43), (0x16F4F, 0x16F4F), (0x16F8F, 0x16F9F), (0x16FE0, 0x16FE1),
   (0x16FE3, 0x16FE4), (0x1AFF0, 0x1AFF3), (0x1AFF5, 0x1AFFB), (0x1AFFD, 0x1AFFE),
   (0x1BC9D, 0x1BC9E), (0x1BCA0, 0x1BCA3), (0x1CF00, 0x1CF2D), (0x1CF30, 0x1CF46),
   (0x1D167, 0x1D169), (0x1D173, 0x1D182), (0x1D185, 0x1D18B), (0x1D1AA, 0x1D1AD),
   (0x1D242, 0x1D244), (0x1DA00, 0x1DA36), (0x1DA3B, 0x1DA6C), (0x1DA75, 0x1DA75),
   (0x1DA84, 0x1DA84), (0x1DA9B, 0x1DA9F), (0x1DAA1, 0x1DAAF), (0x1E000, 0x1E006),
   (0x1E008, 0x1E018), (0x1E01B, 0x1E021), (0x1E023, 0x1E024), (0x1E026, 0x1E02A),
   (0x1E130, 0x1E13D), (0x1E2AE, 0x1E2AE), (0x1E2EC, 0x1E2EF), (0x1E8D0, 0x1E8D6),
   (0x1E944, 0x1E94B), (0x1F3FB, 0x1F3FF), (0xE0001, 0xE0001), (0xE0020, 0xE007F),
   (0xE0100, 0xE01EF)
  ]"

definition cased_ranges :: "(nat \<times> nat) list" where
  "cased_ranges =
  [
   (0x41, 0x5A), (0x61, 0x7A), (0xAA, 0xAA), (0xB5, 0xB5), (0xBA, 0xBA), (0xC0, 0xD6),
   (0xD8, 0xF6), (0xF8, 0x1BA), (0x1BC, 0x1BF), (0x1C4, 0x293), (0x295, 0x2B8),
   (0x2C0, 0x2C1), (0x2E0, 0x2E4), (0x345, 0x345), (0x370, 0x373), (0x376, 0x377),
   (0x37A, 0x37D), (0x37F, 0x37F), (0x386, 0x386), (0x388, 0x38A), (0x38C, 0x38C),
   (0x38E, 0x3A1), (0x3A3, 0x3F5), (0x3F7, 0x481), (0x48A, 0x52F), (0x531, 0x556),
   (0x560, 0x588), (0x10A0, 0x10C5), (0x10C7, 0x10C7), (0x10CD, 0x10CD),
   (0x10D0, 0x10FA), (0x10FD, 0x10FF), (0x13A0, 0x13F5), (0x13F8, 0x13FD),
   (0x1C80, 0x1C88), (0x1C90, 0x1CBA), (0x1CBD, 0x1CBF), (0x1D00, 0x1DBF),
   (0x1E00, 0x1F15), (0x1F18, 0x1F1D), (0x1F20, 0x1F45), (0x1F48, 0x1F4D),
   (0x1F50, 0x1F57), (0x1F59, 0x1F59), (0x1F5B, 0x1F5B), (0x1F5D, 0x1F5D),
   (0x1F5F, 0x1F7D), (0x1F80, 0x1FB4), (0x1FB6, 0x1FBC), (0x1FBE, 0x1FBE),
   (0x1FC2, 0x1FC4), (0x1FC6, 0x1FCC), (0x1FD0, 0x1FD3), (0x1FD6, 0x1FDB),
   (0x1FE0, 0x1FEC), (0x1FF2, 0x1FF4), (0x1FF6, 0x1FFC), (0x2071, 0x2071),
   (0x207F, 0x207F), (0x2090, 0x209C), (0x2102, 0x2102), (0x2107, 0x2107),
   (0x210A, 0x2113), (0x2115, 0x2115), (0x2119, 0x211D), (0x2124, 0x2124),
   (0x2126, 0x2126), (0x2128, 0x2128), (0x212A, 0x212D), (0x212F, 0x2134),
   (0x2139, 0x2139), (0x213C, 0x213F), (0x2145, 0x2149), (0x214E, 0x214E),
   (0x2160, 0x217F), (0x2183, 0x2184), (0x24B6, 0x24E9), (0x2C00, 0x2CE4),
   (0x2CEB, 0x2CEE), (0x2CF2, 0x2CF3), (0x2D00, 0x2D25), (0x2D27, 0x2D27),
   (0x2D2D, 0x2D2D), (0xA640, 0xA66D), (0xA680, 0xA69D), (0xA722, 0xA787),
   (0xA78B, 0xA78E), (0xA790, 0xA7CA), (0xA7D0, 0xA7D1), (0xA7D3, 0xA7D3),
   (0xA7D5, 0xA7D9), (0xA7F5, 0xA7F6), (0xA7F8, 0xA7FA), (0xAB30, 0xAB5A),
   (0xAB5C, 0xAB68), (0xAB70, 0xABBF), (0xFB00, 0xFB06), (0xFB13, 0xFB17),
   (0xFF21, 0xFF3A), (0xFF41, 0xFF5A), (0x10400, 0x1044F), (0x104B0, 0x104D3),
   (0x104D8, 0x104FB), (0x10570, 0x1057A), (0x1057C, 0x1058A), (0x1058C, 0x10592),
   (0x10594, 0x10595), (0x10597, 0x105A1), (0x105A3, 0x105B1), (0x105B3, 0x105B9),
   (0x105BB, 0x105BC), (0x10780, 0x10780), (0x10783, 0x10785), (0x10787, 0x107B0),
   (0x107B2, 0x107BA), (0x10C80, 0x10CB2), (0x10CC0, 0x10CF2), (0x118A0, 0x118DF),
   (0x16E40, 0x16E7F), (0x1D400, 0x1D454), (0x1D456, 0x1D49C), (0x1D49E, 0x1D49F),
   (0x1D4A2, 0x1D4A2), (0x1D4A5, 0x1D4A6), (0x1D4A9, 0x1D4AC), (0x1D4AE, 0x1D4B9),
   (0x1D4BB, 0x1D4BB), (0x1D4BD, 0x1D4C3), (0x1D4C5, 0x1D505), (0x1D507, 0x1D50A),
   (0x1D50D, 0x1D514), (0x1D516, 0x1D51C), (0x1D51E, 0x1D539), (0x1D53B, 0x1D53E),
   (0x1D540, 0x1D544), (0x1D546, 0x1D546), (0x1D54A, 0x1D550), (0x1D552, 0x1D6A5),
   (0x1D6A8, 0x1D6C0), (0x1D6C2, 0x1D6DA), (0x1D6DC, 0x1D6FA), (0x1D6FC, 0x1D714),
   (0x1D716, 0x1D734), (0x1D736, 0x1D74E), (0x1D750, 0x1D76E), (0x1D770, 0x1D788),
   (0x1D78A, 0x1D7A8), (0x1D7AA, 0x1D7C2), (0x1D7C4, 0x1D7CB), (0x1DF00, 0x1DF09),
   (0x1DF0B, 0x1DF1E), (0x1E900, 0x1E943), (0x1F130, 0x1F149), (0x1F150, 0x1F169),
   (0x1F170, 0x1F189)
  ]"

definition is_case_ignorable :: "nat \<Rightarrow> bool" where
  "is_case_ignorable c = in_ranges case_ignorable_ranges c"

definition is_cased :: "nat \<Rightarrow> bool" where
  "is_cased c = in_ranges cased_ranges c"

section \<open>str.strip and str.lower\<close>

text \<open>\<open>s.strip()\<close> removes the leading and the trailing whitespace.\<close>

definition py_strip :: "pystr \<Rightarrow> pystr" where
  "py_strip s = rev (dropWhile py_isspace (rev (dropWhile py_isspace s)))"

text \<open>
  \<open>s.lower()\<close> replaces every code point by its full lowercase mapping, except the
  capital sigma U+03A3 at index \<open>i\<close>: it becomes the final sigma U+03C2 when the
  nearest code point before it that is not case-ignorable is cased, and the nearest such
  code point after it is missing or not cased; otherwise it becomes U+03C3.
\<close>

definition handle_capital_sigma :: "pystr \<Rightarrow> nat \<Rightarrow> nat" where
  "handle_capital_sigma s i =
     (let final_sigma =
            ((case dropWhile is_case_ignorable (rev (take i s)) of
                [] \<Rightarrow> False
              | c # _ \<Rightarrow> is_cased c) \<and>
             (case dropWhile is_case_ignorable (drop (Suc i) s) of
                [] \<Rightarrow> True
              | c # _ \<Rightarrow> \<not> is_cased c))
      in if final_sigma then 0x3C2 else 0x3C3)"

definition lower_ucs4 :: "pystr \<Rightarrow> nat \<Rightarrow> pystr" where
  "lower_ucs4 s i =
     (let c = s ! i in
      if c = 0x3A3 then [handle_capital_sigma s i] else tolower_full c)"

definition py_lower :: "pystr \<Rightarrow> pystr" where
  "py_lower s = concat (map (lower_ucs4 s) [0..<length s])"

section \<open>re.match with re.IGNORECASE\<close>

text \<open>
  The patterns of the sources use a small part of the regular-expression syntax: the
  anchors \<open>^\<close> and \<open>$\<close>, ordinary characters, a backslash before a punctuation character
  (the character itself) and \<open>?\<close> after a character (the character is optional). The
  parser below reads that part; anything else is marked \<open>UNSUPPORTED\<close>, and
  \<open>hello_patterns_supported\<close> shows that no pattern of the sources contains such an item.
\<close>

datatype sre_op = AT_BEGINNING | AT_END | LITERAL nat | MAX_REPEAT_0_1 nat | UNSUPPORTED

text \<open>First pass: a backslash escapes the character after it.\<close>

fun sre_tokens :: "string \<Rightarrow> (bool \<times> char) list" where
  "sre_tokens [] = []"
| "sre_tokens [c] = [(False, c)]"
| "sre_tokens (c # d # cs) =
     (if c = CHR 0x5C then (True, d) # sre_tokens cs else (False, c) # sre_tokens (d # cs))"

definition SPECIAL_CHARS :: string where
  "SPECIAL_CHARS = ''.^$*+?{}[]()|'' @ [CHR 0x5C]"

definition ascii_alnum :: "char \<Rightarrow> bool" where
  "ascii_alnum c =
     (let n = (of_char c :: nat) in
      (0x30 \<le> n \<and> n \<le> 0x39) \<or> (0x41 \<le> n \<and> n \<le> 0x5A) \<or> (0x61 \<le> n \<and> n \<le> 0x7A))"

definition is_literal_token :: "bool \<times> char \<Rightarrow> bool" where
  "is_literal_token t =
     ((of_char (snd t) :: nat) < 0x80 \<and>
      (if fst t then \<not> ascii_alnum (snd t) else snd t \<notin> set SPECIAL_CHARS))"

fun sre_items :: "(bool \<times> char) list \<Rightarrow> sre_op list" where
  "sre_items [] = []"
| "sre_items (t # ts) =
     (if t = (False, CHR ''^'') then AT_BEGINNING # sre_items ts
      else if t = (False, CHR ''$'') then AT_END # sre_items ts
      else if \<not> is_literal_token t then UNSUPPORTED # sre_items ts
      else (case ts of
              [] \<Rightarrow> [LITERAL (of_char (snd t))]
            | q # ts' \<Rightarrow>
                if q = (False, CHR ''?'') then MAX_REPEAT_0_1 (of_char (snd t)) # sre_items ts'
                else LITERAL (of_char (snd t)) # sre_items ts))"

definition sre_parse :: "string \<Rightarrow> sre_op list" where
  "sre_parse p = sre_items (sre_tokens p)"

text \<open>
  With \<open>re.IGNORECASE\<close> on a \<open>str\<close> pattern the compiler keeps a literal that is not cased
  as it is. A cased literal is replaced by its lowercase \<open>lo\<close>, and the subject
  character matches when its simple lowercase is \<open>lo\<close> or one of the code points that
  \<open>_EXTRA_CASES\<close> lists for \<open>lo\<close> (lowercase characters with the same uppercase, such as
  U+0131 for \<open>i\<close> and U+017F for \<open>s\<close>). Pattern characters are ASCII, where the cased
  characters are the letters.
\<close>

definition unicode_iscased :: "nat \<Rightarrow> bool" where
  "unicode_iscased ch = ((0x41 \<le> ch \<and> ch \<le> 0x5A) \<or> (0x61 \<le> ch \<and> ch \<le> 0x7A))"

definition EXTRA_CASES :: "(nat \<times> nat list) list" where
  "EXTRA_CASES =
  [
   (0x69, [0x131]), (0x73, [0x17F]), (0xB5, [0x3BC]), (0x131, [0x69]), (0x17F, [0x73]),
   (0x345, [0x3B9, 0x1FBE]), (0x390, [0x1FD3]), (0x3B0, [0x1FE3]), (0x3B2, [0x3D0]),
   (0x3B5, [0x3F5]), (0x3B8, [0x3D1]), (0x3B9, [0x345, 0x1FBE]), (0x3BA, [0x3F0]),
   (0x3BC, [0xB5]), (0x3C0, [0x3D6]), (0x3C1, [0x3F1]), (0x3C2, [0x3C3]),
   (0x3C3, [0x3C2]), (0x3C6, [0x3D5]), (0x3D0, [0x3B2]), (0x3D1, [0x3B8]),
   (0x3D5, [0x3C6]), (0x3D6, [0x3C0]), (0x3F0, [0x3BA]), (0x3F1, [0x3C1]),
   (0x3F5, [0x3B5]), (0x432, [0x1C80]), (0x434, [0x1C81]), (0x43E, [0x1C82]),
   (0x441, [0x1C83]), (0x442, [0x1C84, 0x1C85]), (0x44A, [0x1C86]), (0x463, [0x1C87]),
   (0x1C80, [0x432]), (0x1C81, [0x434]), (0x1C82, [0x43E]), (0x1C83, [0x441]),
   (0x1C84, [0x442, 0x1C85]), (0x1C85, [0x442, 0x1C84]), (0x1C86, [0x44A]),
   (0x1C87, [0x463]), (0x1C88, [0xA64B]), (0x1E61, [0x1E9B]), (0x1E9B, [0x1E61]),
   (0x1FBE, [0x345, 0x3B9]), (0x1FD3, [0x390]), (0x1FE3, [0x3B0]), (0xA64B, [0x1C88]),
   (0xFB05, [0xFB06]), (0xFB06, [0xFB05])
  ]"

definition literal_ignore :: "nat \<Rightarrow> nat \<Rightarrow> bool" where
  "literal_ignore av ch =
     (if \<not> unicode_iscased av then ch = av
      else (let lo = unicode_tolower av in
            case map_of EXTRA_CASES lo of
              None \<Rightarrow> unicode_tolower ch = lo
            | Some fixes \<Rightarrow> unicode_tolower ch \<in> set (lo # fixes)))"

text \<open>
  The matcher runs the items from a position of the subject: \<open>at_start\<close> tells whether
  the position is the beginning of the string, and the list is the rest of the subject
  from the position on. \<open>$\<close> holds at the end of the string and just before a newline
  that ends it. An optional character is tried first and skipped on failure. The match
  succeeds when the items are used up, wherever the subject then stands.
\<close>

fun sre_match :: "sre_op list \<Rightarrow> bool \<Rightarrow> pystr \<Rightarrow> bool" where
  "sre_match [] at_start s = True"
| "sre_match (AT_BEGINNING # ops) at_start s = (at_start \<and> sre_match ops at_start s)"
| "sre_match (AT_END # ops) at_start s = ((s = [] \<or> s = [0x0A]) \<and> sre_match ops at_start s)"
| "sre_match (LITERAL av # ops) at_start s =
     (case s of [] \<Rightarrow> False | ch # rest \<Rightarrow> literal_ignore av ch \<and> sre_match ops False rest)"
| "sre_match (MAX_REPEAT_0_1 av # ops) at_start s =
     ((case s of [] \<Rightarrow> False | ch # rest \<Rightarrow> literal_ignore av ch \<and> sre_match ops False rest)
      \<or> sre_match ops at_start s)"
| "sre_match (UNSUPPORTED # ops) at_start s = False"

text \<open>\<open>re.match(pattern, string, re.IGNORECASE)\<close>, as a truth value.\<close>

definition re_match :: "string \<Rightarrow> pystr \<Rightarrow> bool" where
  "re_match pattern string = sre_match (sre_parse pattern) True string"

section \<open>hello.py and hello_second.py\<close>

text \<open>
  The two scripts have the same \<open>normalize_input\<close>, \<open>is_exit_command\<close>,
  \<open>is_help_command\<close>, \<open>get_user_input\<close> and \<open>main\<close>; they differ in the pattern list of
  \<open>is_hello_command\<close>, in the \<open>responses\<close> dictionary of \<open>show_greeting\<close> and in the text
  of \<open>show_help\<close>. The definitions of hello_second.py carry the suffix \<open>_second\<close>.
\<close>

definition normalize_input :: "pystr option \<Rightarrow> pystr" where
  "normalize_input user_input =
     (case user_input of None \<Rightarrow> [] | Some s \<Rightarrow> py_lower (py_strip s))"

text \<open>The loop over the patterns returns at the first one that matches.\<close>

fun match_any :: "string list \<Rightarrow> pystr \<Rightarrow> bool" where
  "match_any [] normalized = False"
| "match_any (pattern # patterns) normalized =
     (if re_match pattern normalized then True else match_any patterns normalized)"

definition exit_commands :: "pystr list" where
  "exit_commands =
     [py ''exit'', py ''quit'', py ''q'', py ''bye'', py ''goodbye'', py ''stop'', py ''end'']"

definition is_exit_command :: "pystr \<Rightarrow> bool" where
  "is_exit_command input_text =
     (let normalized = normalize_input (Some input_text) in normalized \<in> set exit_commands)"

definition help_commands :: "pystr list" where
  "help_commands = [py ''help'', py ''?'', py ''commands'', py ''info'', py ''usage'']"

definition is_help_command :: "pystr \<Rightarrow> bool" where
  "is_help_command input_text =
     (let normalized = normalize_input (Some input_text) in normalized \<in> set help_commands)"

text \<open>
  A dictionary display keeps, for a key written twice, the value written last;
  \<open>d.get(k, default)\<close> is the value of \<open>k\<close>, or \<open>default\<close> when \<open>k\<close> is not a key.
\<close>

definition dict_get :: "(pystr \<times> pystr) list \<Rightarrow> pystr \<Rightarrow> pystr \<Rightarrow> pystr" where
  "dict_get d k dflt = (case map_of (rev d) k of None \<Rightarrow> dflt | Some v \<Rightarrow> v)"

definition greeting_line :: "pystr \<Rightarrow> pystr list" where
  "greeting_line response =
     py_print ([0x0A, 0x1F31F] @ py '' '' @ response @ py '' '' @ [0x1F31F, 0x0A])"

definition fallback_response :: pystr where
  "fallback_response = py ''Hello! Great to see you!''"

text \<open>
  What \<open>input\<close> can do: return a line, or raise \<open>EOFError\<close>, \<open>KeyboardInterrupt\<close> or
  another exception (with its message). \<open>get_user_input\<close> writes the prompt, and on an
  exception a message, and returns the line or \<open>None\<close>.
\<close>

datatype input_event = Line pystr | EOFError | KeyboardInterrupt | OtherError pystr

definition prompt :: "pystr list" where
  "prompt = [py ''Enter something (or 'help' for commands): '']"

definition get_user_input :: "input_event \<Rightarrow> pystr list \<times> pystr option" where
  "get_user_input ev =
     (case ev of
        Line s \<Rightarrow> (prompt, Some s)
      | EOFError \<Rightarrow> (prompt @ py_print ([0x0A, 0x0A] @ py ''Goodbye!''), None)
      | KeyboardInterrupt \<Rightarrow> (prompt @ py_print ([0x0A, 0x0A] @ py ''Goodbye!''), None)
      | OtherError e \<Rightarrow> (prompt @ py_print ([0x0A] @ py ''Error reading input: '' @ e), None))"

text \<open>The three messages that \<open>main\<close> writes inside its loop.\<close>

definition please_enter :: "pystr list" where
  "please_enter = py_print (py ''Please enter something. Type 'help' for commands.'' @ [0x0A])"

definition farewell :: "pystr list" where
  "farewell =
     py_print ([0x0A] @ py ''Thank you for using the Hello Response Script! '' @ [0x1F44B])
       @ py_print (py ''Goodbye!'' @ [0x0A])"

definition try_typing :: "pystr \<Rightarrow> pystr list" where
  "try_typing user_input =
     py_print ([0x0A] @ py ''You entered: '' @ [0x27] @ user_input @ [0x27])
       @ py_print (py ''Try typing 'hello' or similar greetings! Type 'help' for more options.''
                   @ [0x0A])"

text \<open>
  The body of the \<open>while True\<close> loop of \<open>main\<close> for a line that was read: what it
  writes, and whether the loop goes on (\<open>continue\<close>, or the end of the body) or stops
  (\<open>break\<close>). The three functions in which the scripts differ are parameters.
\<close>

definition loop_body ::
  "(pystr \<Rightarrow> bool) \<Rightarrow> pystr list \<Rightarrow> (pystr \<Rightarrow> pystr list) \<Rightarrow> pystr \<Rightarrow> pystr list \<times> bool" where
  "loop_body is_hello help greet user_input =
     (if py_strip user_input = [] then (please_enter, True)
      else if is_exit_command user_input then (farewell, False)
      else if is_help_command user_input then (help, True)
      else if is_hello user_input then (greet user_input, True)
      else (try_typing user_input, True))"

text \<open>
  The loop runs over the events that \<open>input\<close> produces; when they are used up, standard
  input is at its end and \<open>input\<close> raises \<open>EOFError\<close>. The two \<open>except\<close> clauses of
  \<open>main\<close> are never entered here: an interrupt is an event of \<open>input\<close>, which
  \<open>get_user_input\<close> catches, and no other call of the loop raises.
\<close>

fun main_loop ::
  "(pystr \<Rightarrow> bool) \<Rightarrow> pystr list \<Rightarrow> (pystr \<Rightarrow> pystr list) \<Rightarrow> input_event list \<Rightarrow> pystr list" where
  "main_loop is_hello help greet [] = fst (get_user_input EOFError)"
| "main_loop is_hello help greet (ev # evs) =
     (case get_user_input ev of
        (out, None) \<Rightarrow> out
      | (out, Some user_input) \<Rightarrow>
          (case loop_body is_hello help greet user_input of
             (written, True) \<Rightarrow> out @ written @ main_loop is_hello help greet evs
           | (written, False) \<Rightarrow> out @ written))"

definition banner :: "pystr list" where
  "banner =
     py_print ([0x0A] @ replicate 50 0x3D)
       @ py_print ([0x1F680] @ py '' HELLO RESPONSE SCRIPT - ENHANCED VERSION '' @ [0x1F680])
       @ py_print (replicate 50 0x3D)
       @ py_print ([0x0A] @ py ''Type 'hello' (or variations) to get a response!'')
       @ py_print (py ''Type 'help' for available commands or 'exit' to quit.'' @ [0x0A])"

subsection \<open>hello.py\<close>

definition hello_patterns :: "string list" where
  "hello_patterns =
    [''^hello$'',
     ''^hi$'',
     ''^hey$'',
     ''^hello there$'',
     ''^good morning$'',
     ''^good afternoon$'',
     ''^good evening$'',
     ''^greetings$'',
     ''^salutations$'',
     ''^hola$'',
     ''^bonjour$'',
     ''^hallo$'',
     ''^ciao$'',
     ''^namaste$'']"

definition responses :: "(pystr \<times> pystr) list" where
  "responses =
    [(py ''hello'',
       py ''Hello! Welcome!''),
     (py ''hi'',
       py ''Hi there! Nice to see you!''),
     (py ''hey'',
       py ''Hey! How's it going?''),
     (py ''hello there'',
       py ''Hello there! General Kenobi... '' @ [0x1F609]),
     (py ''good morning'',
       py ''Good morning! Rise and shine!''),
     (py ''good afternoon'',
       py ''Good afternoon! Hope you're having a great day!''),
     (py ''good evening'',
       py ''Good evening! How was your day?''),
     (py ''greetings'',
       py ''Greetings and salutations!''),
     (py ''salutations'',
       py ''Salutations! A pleasure to meet you!''),
     (py ''hola'',
       [0xA1] @ py ''Hola! Bienvenido!''),
     (py ''bonjour'',
       py ''Bonjour! Comment allez-vous?''),
     (py ''hallo'',
       py ''Hallo! Wie geht's?''),
     (py ''ciao'',
       py ''Ciao! Piacere di conoscerti!''),
     (py ''namaste'',
       py ''Namaste! '' @ [0x1F64F])]"

definition show_help :: "pystr list" where
  "show_help = concat (map py_print
    [[0xA] @ replicate 50 0x3D,
     py ''HELLO RESPONSE SCRIPT - HELP'',
     replicate 50 0x3D,
     [0xA] @ py ''This script responds to various greeting forms.'',
     [0xA] @ py ''Commands:'',
     py ''  Greetings: hello, hi, hey, hello there, good morning,'',
     py ''            good afternoon, good evening, greetings,'',
     py ''            salutations, hola, bonjour, hallo, ciao, namaste'',
     py ''  Help:      help, ?, commands, info, usage'',
     py ''  Exit:      exit, quit, q, bye, goodbye, stop, end'',
     [0xA] @ py ''The script is case-insensitive and handles extra spaces.'',
     replicate 50 0x3D @ [0xA]])"

definition is_hello_command :: "pystr \<Rightarrow> bool" where
  "is_hello_command input_text =
     (let normalized = normalize_input (Some input_text) in
      match_any hello_patterns normalized)"

definition show_greeting :: "pystr \<Rightarrow> pystr list" where
  "show_greeting input_text =
     (let normalized = normalize_input (Some input_text);
          response = dict_get responses normalized fallback_response
      in greeting_line response)"

definition main :: "input_event list \<Rightarrow> pystr list" where
  "main evs = banner @ main_loop is_hello_command show_help show_greeting evs"

subsection \<open>hello_second.py\<close>

definition hello_patterns_second :: "string list" where
  "hello_patterns_second =
    [''^hello$'',
     ''^hi$'',
     ''^hey$'',
     ''^hello there$'',
     ''^hi there$'',
     ''^hey there$'',
     ''^howdy$'',
     ''^yo$'',
     ''^sup$'',
     ''^what'' @ [CHR 0x5C, CHR 0x27] @ ''?s up$'',
     ''^whats up$'',
     ''^wassup$'',
     ''^good morning$'',
     ''^good afternoon$'',
     ''^good evening$'',
     ''^good day$'',
     ''^greetings$'',
     ''^salutations$'',
     ''^welcome$'',
     ''^how are you$'',
     ''^how do you do$'',
     ''^pleased to meet you$'',
     ''^nice to meet you$'',
     ''^hola$'',
     ''^buenos dias$'',
     ''^buenas tardes$'',
     ''^buenas noches$'',
     ''^bonjour$'',
     ''^salut$'',
     ''^bonsoir$'',
     ''^hallo$'',
     ''^guten tag$'',
     ''^guten morgen$'',
     ''^ciao$'',
     ''^buongiorno$'',
     ''^buonasera$'',
     ''^oi$'',
     ''^ola$'',
     ''^bom dia$'',
     ''^namaste$'',
     ''^konnichiwa$'',
     ''^ni hao$'',
     ''^annyeong$'',
     ''^sawadee$'',
     ''^shalom$'',
     ''^salam$'',
     ''^jambo$'',
     ''^aloha$'',
     ''^ahoy$'',
     ''^privyet$'',
     ''^zdravo$'']"

definition responses_second :: "(pystr \<times> pystr) list" where
  "responses_second =
    [(py ''hello'',
       py ''Hello! Welcome!''),
     (py ''hi'',
       py ''Hi there! Nice to see you!''),
     (py ''hey'',
       py ''Hey! How's it going?''),
     (py ''hello there'',
       py ''Hello there! General Kenobi... '' @ [0x1F609]),
     (py ''hi there'',
       py ''Hi there! Wonderful to see you!''),
     (py ''hey there'',
       py ''Hey there! What's happening?''),
     (py ''howdy'',
       py ''Howdy, partner! '' @ [0x1F920]),
     (py ''yo'',
       py ''Yo! What's good?''),
     (py ''sup'',
       py ''Sup! How's everything?''),
     (py ''what's up'',
       py ''Not much, you? What's up with you?''),
     (py ''whats up'',
       py ''Not much, you? What's up with you?''),
     (py ''wassup'',
       py ''Wassup! Everything cool?''),
     (py ''good morning'',
       py ''Good morning! Rise and shine!''),
     (py ''good afternoon'',
       py ''Good afternoon! Hope you're having a great day!''),
     (py ''good evening'',
       py ''Good evening! How was your day?''),
     (py ''good day'',
       py ''Good day! Wishing you the best!''),
     (py ''greetings'',
       py ''Greetings and salutations!''),
     (py ''salutations'',
       py ''Salutations! A pleasure to meet you!''),
     (py ''welcome'',
       py ''Welcome! So glad you're here!''),
     (py ''how are you'',
       py ''I'm doing great, thanks for asking! How are you?''),
     (py ''how do you do'',
       py ''How do you do? Pleased to make your acquaintance!''),
     (py ''pleased to meet you'',
       py ''Pleased to meet you too! The pleasure is mine!''),
     (py ''nice to meet you'',
       py ''Nice to meet you as well! Great to connect!''),
     (py ''hola'',
       [0xA1] @ py ''Hola! '' @ [0xA1] @ py ''Bienvenido!''),
     (py ''buenos dias'',
       [0xA1] @ py ''Buenos d'' @ [0xED] @ py ''as! '' @ [0xA1] @ py ''Que tengas un excelente d'' @ [0xED] @ py ''a!''),
     (py ''buenas tardes'',
       [0xA1] @ py ''Buenas tardes! '' @ [0xBF] @ py ''C'' @ [0xF3] @ py ''mo est'' @ [0xE1] @ py ''s?''),
     (py ''buenas noches'',
       [0xA1] @ py ''Buenas noches! Que descanses bien.''),
     (py ''bonjour'',
       py ''Bonjour! Comment allez-vous?''),
     (py ''salut'',
       py ''Salut! '' @ [0xC7] @ py ''a va?''),
     (py ''bonsoir'',
       py ''Bonsoir! Bonne soir'' @ [0xE9] @ py ''e!''),
     (py ''hallo'',
       py ''Hallo! Wie geht's?''),
     (py ''guten tag'',
       py ''Guten Tag! Wie geht es Ihnen?''),
     (py ''guten morgen'',
       py ''Guten Morgen! Sch'' @ [0xF6] @ py ''nen Tag noch!''),
     (py ''ciao'',
       py ''Ciao! Piacere di conoscerti!''),
     (py ''buongiorno'',
       py ''Buongiorno! Come stai?''),
     (py ''buonasera'',
       py ''Buonasera! Bella serata!''),
     (py ''oi'',
       py ''Oi! Tudo bem?''),
     (py ''ola'',
       py ''Ol'' @ [0xE1] @ py ''! Como vai?''),
     (py ''bom dia'',
       py ''Bom dia! Tenha um '' @ [0xF3] @ py ''timo dia!''),
     (py ''namaste'',
       py ''Namaste! '' @ [0x1F64F]),
     (py ''konnichiwa'',
       [0x3053, 0x3093, 0x306B, 0x3061, 0x306F] @ py '' (Konnichiwa)! Welcome!''),
     (py ''ni hao'',
       [0x4F60, 0x597D] @ py '' (N'' @ [0x1D0] @ py '' h'' @ [0x1CE] @ py ''o)! Hello!''),
     (py ''annyeong'',
       [0xC548, 0xB155] @ py '' (Annyeong)! Hello!''),
     (py ''sawadee'',
       [0xE2A, 0xE27, 0xE31, 0xE2A, 0xE14, 0xE35] @ py '' (Sawadee)! Welcome!''),
     (py ''shalom'',
       py ''Shalom! '' @ [0x5E9, 0x5DC, 0x5D5, 0x5DD] @ py '' Peace be with you!''),
     (py ''salam'',
       py ''As-salamu alaykum! '' @ [0x627, 0x644, 0x633, 0x644, 0x627, 0x645] @ py '' '' @ [0x639, 0x644, 0x64A, 0x643, 0x645] @ py '' Peace!''),
     (py ''jambo'',
       py ''Jambo! Habari gani?''),
     (py ''aloha'',
       py ''Aloha! '' @ [0x1F33A] @ py '' Welcome to paradise!''),
     (py ''ahoy'',
       py ''Ahoy there, matey! '' @ [0x2693]),
     (py ''privyet'',
       [0x41F, 0x440, 0x438, 0x432, 0x435, 0x442] @ py '' (Privyet)! '' @ [0x41A, 0x430, 0x43A] @ py '' '' @ [0x434, 0x435, 0x43B, 0x430] @ py ''?''),
     (py ''zdravo'',
       py ''Zdravo! Kako si?'')]"

definition show_help_second :: "pystr list" where
  "show_help_second = concat (map py_print
    [[0xA] @ replicate 50 0x3D,
     py ''HELLO RESPONSE SCRIPT - HELP'',
     replicate 50 0x3D,
     [0xA] @ py ''This script responds to various greeting forms.'',
     [0xA] @ py ''Commands:'',
     py ''  English:   hello, hi, hey, howdy, yo, sup, what's up,'',
     py ''             good morning/afternoon/evening/day, greetings,'',
     py ''             how are you, nice to meet you, welcome'',
     py ''  Spanish:   hola, buenos dias, buenas tardes, buenas noches'',
     py ''  French:    bonjour, salut, bonsoir'',
     py ''  German:    hallo, guten tag, guten morgen'',
     py ''  Italian:   ciao, buongiorno, buonasera'',
     py ''  Portuguese: oi, ola, bom dia'',
     py ''  Japanese:  konnichiwa'',
     py ''  Chinese:   ni hao'',
     py ''  Korean:    annyeong'',
     py ''  Thai:      sawadee'',
     py ''  Hindi:     namaste'',
     py ''  Hebrew:    shalom'',
     py ''  Arabic:    salam'',
     py ''  Swahili:   jambo'',
     py ''  Hawaiian:  aloha'',
     py ''  Russian:   privyet'',
     py ''  Serbian:   zdravo'',
     [0xA] @ py ''  Help:      help, ?, commands, info, usage'',
     py ''  Exit:      exit, quit, q, bye, goodbye, stop, end'',
     [0xA] @ py ''The script is case-insensitive and handles extra spaces.'',
     replicate 50 0x3D @ [0xA]])"

definition is_hello_command_second :: "pystr \<Rightarrow> bool" where
  "is_hello_command_second input_text =
     (let normalized = normalize_input (Some input_text) in
      match_any hello_patterns_second normalized)"

definition show_greeting_second :: "pystr \<Rightarrow> pystr list" where
  "show_greeting_second input_text =
     (let normalized = normalize_input (Some input_text);
          response = dict_get responses_second normalized fallback_response
      in greeting_line response)"

definition main_second :: "input_event list \<Rightarrow> pystr list" where
  "main_second evs = banner @ main_loop is_hello_command_second show_help_second show_greeting_second evs"

section \<open>app.py: the job-status endpoint\<close>

text \<open>
  The request carries its query string as the ordered list of key/value pairs
  (\<open>request.args\<close>, a MultiDict). \<open>request.args.get(k)\<close> is the value of the first pair
  with key \<open>k\<close>, and \<open>None\<close> when there is none.
\<close>

record request =
  args :: "(pystr \<times> pystr) list"

fun args_get :: "(pystr \<times> pystr) list \<Rightarrow> pystr \<Rightarrow> pystr option" where
  "args_get [] k = None"
| "args_get ((k', v) # kvs) k = (if k' = k then Some v else args_get kvs k)"

text \<open>
  A view function returns either a string (Flask answers with status 200) or a pair of a
  string and a status. \<open>time.sleep\<close> is the only effect; the calls made before the
  return are recorded in order.
\<close>

datatype view_return = Body pystr | BodyStatus pystr nat

datatype effect = Sleep nat

record response =
  effects :: "effect list"
  body :: pystr
  status :: nat

definition make_response :: "effect list \<times> view_return \<Rightarrow> response" where
  "make_response r =
     (case r of
        (es, Body b) \<Rightarrow> \<lparr>effects = es, body = b, status = 200\<rparr>
      | (es, BodyStatus b s) \<Rightarrow> \<lparr>effects = es, body = b, status = s\<rparr>)"

definition index :: "request \<Rightarrow> effect list \<times> view_return" where
  "index req = ([], Body (py ''Welcome. Use /job?jobname=xxx''))"

definition job_handler :: "request \<Rightarrow> effect list \<times> view_return" where
  "job_handler req =
     (let jobname = args_get (args req) (py ''jobname'') in
      if jobname = Some (py ''normal'') then ([], Body (py ''0''))
      else if jobname = Some (py ''error'') then ([], Body (py ''1''))
      else if jobname = Some (py ''timeout'') then ([Sleep 3600], Body (py ''0''))
      else ([], BodyStatus (py ''Invalid jobname'') 400))"

text \<open>\<open>GET /job\<close>: the route calls \<open>job_handler\<close> and Flask builds the response.\<close>

definition get_job :: "request \<Rightarrow> response" where
  "get_job req = make_response (job_handler req)"

section \<open>Auxiliary definitions for the proofs\<close>

text \<open>
  \<open>image_misses e e'\<close> is a check, decidable on the entries alone, that no image of the
  entry \<open>e\<close> is covered by the entry \<open>e'\<close>: the images lie before or after the range of
  \<open>e'\<close>, or \<open>e'\<close> covers every second code point and the images have the other parity.
\<close>

definition image_misses ::
  "nat \<times> nat \<times> nat \<times> nat \<Rightarrow> nat \<times> nat \<times> nat \<times> nat \<Rightarrow> bool" where
  "image_misses e e' =
     (case e of (lo, hi, step, target) \<Rightarrow>
      case e' of (lo', hi', step', target') \<Rightarrow>
        if target + hi < lo' + lo then True
        else if hi' < target then True
        else step' = 2 \<and> (step = 2 \<or> lo = hi) \<and> even target \<noteq> even lo')"

definition image_outside :: "nat \<times> nat \<times> nat \<times> nat \<Rightarrow> nat \<times> nat \<Rightarrow> bool" where
  "image_outside e r =
     (case e of (lo, hi, step, target) \<Rightarrow>
        if target + hi < fst r + lo then True else snd r < target)"

text \<open>A code point that the lowercase table does not cover.\<close>

definition uncovered :: "nat \<Rightarrow> bool" where
  "uncovered c = (find (\<lambda>e. covers e c) lowercase_table = None)"

text \<open>
  \<open>fold_extra\<close> reads the two lowercase letters that \<open>re.IGNORECASE\<close> identifies with an
  ASCII letter as that letter: U+0131 (dotless i) as \<open>i\<close> and U+017F (long s) as \<open>s\<close>.
\<close>

definition fold_extra :: "nat \<Rightarrow> nat" where
  "fold_extra c = (if c = 0x131 then 0x69 else if c = 0x17F then 0x73 else c)"

text \<open>
  The characters of the patterns: the lowercase ASCII letters, the space and the
  apostrophe. \<open>expand\<close> lists the strings that a sequence of literal and optional
  characters spells, and \<open>phrases_of\<close> those of a pattern of the form \<open>^...$\<close>.
\<close>

definition pat_char :: "nat \<Rightarrow> bool" where
  "pat_char a = (a = 0x20 \<or> a = 0x27 \<or> (0x61 \<le> a \<and> a \<le> 0x7A))"

fun char_item :: "sre_op \<Rightarrow> bool" where
  "char_item (LITERAL a) = pat_char a"
| "char_item (MAX_REPEAT_0_1 a) = pat_char a"
| "char_item _ = False"

fun expand :: "sre_op list \<Rightarrow> pystr list" where
  "expand [] = [[]]"
| "expand (LITERAL a # ops) = map ((#) a) (expand ops)"
| "expand (MAX_REPEAT_0_1 a # ops) = map ((#) a) (expand ops) @ expand ops"
| "expand (_ # ops) = []"

definition anchored :: "string \<Rightarrow> bool" where
  "anchored p =
     (case sre_parse p of
        AT_BEGINNING # ops \<Rightarrow> ops \<noteq> [] \<and> last ops = AT_END \<and> list_all char_item (butlast ops)
      | _ \<Rightarrow> False)"

definition phrases_of :: "string \<Rightarrow> pystr list" where
  "phrases_of p = expand (butlast (tl (sre_parse p)))"

text \<open>
  A variant of a phrase in letter case: every character is that of the phrase or, for a
  letter, its capital. \<open>plain_phrase\<close> holds for the phrases such a variant
  normalizes to: non-empty, ASCII without capitals, no whitespace at either end.
\<close>

definition case_variant :: "pystr \<Rightarrow> pystr \<Rightarrow> bool" where
  "case_variant k v =
     list_all2 (\<lambda>a b. b = a \<or> (0x61 \<le> a \<and> a \<le> 0x7A \<and> b + 0x20 = a)) k v"

definition plain_phrase :: "pystr \<Rightarrow> bool" where
  "plain_phrase k =
     (k \<noteq> [] \<and> list_all (\<lambda>a. a < 0x80 \<and> \<not> (0x41 \<le> a \<and> a \<le> 0x5A)) k \<and>
      \<not> py_isspace (hd k) \<and> \<not> py_isspace (last k))"

section \<open>The classifier in the words of the specification\<close>

text \<open>
  The specification names four outcomes for a normalized input and tests, in this order,
  membership in the exit keywords, in the help keywords and in the phrase catalog (the
  keys of the responses). \<open>classify_spec\<close> follows these words. \<open>classify_folded\<close>
  differs in the third test only, which reads U+0131 as \<open>i\<close> and U+017F as \<open>s\<close> first.
  \<open>respond\<close> is what the loop of \<open>main\<close> writes for an outcome, and whether it goes on.
\<close>

datatype outcome = Terminate | Show_help | Greeting_match | Unrecognized

definition classify_spec :: "pystr list \<Rightarrow> pystr \<Rightarrow> outcome" where
  "classify_spec catalog n =
     (if n \<in> set exit_commands then Terminate
      else if n \<in> set help_commands then Show_help
      else if n \<in> set catalog then Greeting_match
      else Unrecognized)"

definition classify_folded :: "pystr list \<Rightarrow> pystr \<Rightarrow> outcome" where
  "classify_folded catalog n =
     (if n \<in> set exit_commands then Terminate
      else if n \<in> set help_commands then Show_help
      else if map fold_extra n \<in> set catalog then Greeting_match
      else Unrecognized)"

definition respond ::
  "pystr list \<Rightarrow> (pystr \<Rightarrow> pystr list) \<Rightarrow> pystr \<Rightarrow> outcome \<Rightarrow> pystr list \<times> bool" where
  "respond help greet user_input out =
     (case out of
        Terminate \<Rightarrow> (farewell, False)
      | Show_help \<Rightarrow> (help, True)
      | Greeting_match \<Rightarrow> (greet user_input, True)
      | Unrecognized \<Rightarrow>
          (if py_strip user_input = [] then please_enter else try_typing user_input, True))"

section \<open>Facts about the Unicode tables\<close>

lemma covers_image_misses:
  assumes "image_misses e e'" and "covers e c"
  shows "\<not> covers e' (image_of e c)"
proof -
  obtain lo hi st t where e: "e = (lo, hi, st, t)" by (cases e) auto
  obtain lo' hi' st' t' where e': "e' = (lo', hi', st', t')" by (cases e') auto
  from assms(2) have c: "lo \<le> c" "c \<le> hi" "(c - lo) mod st = 0"
    by (simp_all add: e covers_def)
  consider (before) "t + hi < lo' + lo" | (after) "hi' < t"
    | (parity) "st' = 2" "st = 2 \<or> lo = hi" "even t \<noteq> even lo'"
    using assms(1) by (auto simp: e e' image_misses_def split: if_splits)
  then show ?thesis
  proof cases
    case before
    with c show ?thesis by (simp add: e e' covers_def image_of_def)
  next
    case after
    then show ?thesis by (simp add: e e' covers_def image_of_def)
  next
    case parity
    from parity(2) c have ev: "even (c - lo)" by (auto simp: even_iff_mod_2_eq_zero)
    show ?thesis
    proof
      assume "covers e' (image_of e c)"
      then have "lo' \<le> t + (c - lo)" "even (t + (c - lo) - lo')"
        by (simp_all add: e e' covers_def image_of_def parity(1) even_iff_mod_2_eq_zero)
      with ev parity(3) show False by auto
    qed
  qed
qed

lemmas table_check_simps =
  list.pred_inject image_misses_def image_outside_def prod.case fst_conv snd_conv
  rel_simps arith_simps if_True if_False simp_thms even_numeral odd_numeral

lemma lowercase_table_images:
  "list_all (\<lambda>e. list_all (image_misses e) lowercase_table) lowercase_table"
  unfolding lowercase_table_def by (simp only: table_check_simps)

lemma lowercase_table_no_space:
  "list_all (\<lambda>e. list_all (image_outside e) whitespace_ranges) lowercase_table"
  unfolding lowercase_table_def whitespace_ranges_def by (simp only: table_check_simps)

lemma uncovered_iff: "uncovered c = (\<forall>e \<in> set lowercase_table. \<not> covers e c)"
  by (auto simp: uncovered_def find_None_iff)

lemma tolower_uncovered: "uncovered c \<Longrightarrow> unicode_tolower c = c"
  by (simp add: uncovered_def unicode_tolower_def)

lemma find_SomeD: "find P xs = Some x \<Longrightarrow> x \<in> set xs \<and> P x"
  by (induction xs) (auto split: if_splits)

lemma tolower_covered:
  assumes "\<not> uncovered c"
  shows "\<exists>e \<in> set lowercase_table. covers e c \<and> unicode_tolower c = image_of e c"
proof -
  from assms obtain e where f: "find (\<lambda>e. covers e c) lowercase_table = Some e"
    unfolding uncovered_def by blast
  from find_SomeD [OF f] have "e \<in> set lowercase_table" "covers e c" by simp_all
  moreover from f have "unicode_tolower c = image_of e c"
    unfolding unicode_tolower_def by simp
  ultimately show ?thesis by blast
qed

lemma uncovered_tolower: "uncovered (unicode_tolower c)"
proof (cases "uncovered c")
  case True
  then show ?thesis by (simp add: tolower_uncovered)
next
  case False
  then obtain e where e: "e \<in> set lowercase_table" "covers e c"
    "unicode_tolower c = image_of e c"
    using tolower_covered by blast
  have "\<not> covers e' (image_of e c)" if "e' \<in> set lowercase_table" for e'
    using lowercase_table_images e(1,2) that covers_image_misses
    by (auto simp: list_all_iff)
  then show ?thesis by (simp add: uncovered_iff e(3))
qed

lemma tolower_idem: "unicode_tolower (unicode_tolower c) = unicode_tolower c"
  by (simp add: tolower_uncovered uncovered_tolower)

lemma covers_image_outside:
  assumes "image_outside e r" and "covers e c"
  shows "\<not> (fst r \<le> image_of e c \<and> image_of e c \<le> snd r)"
proof -
  obtain lo hi st t where e: "e = (lo, hi, st, t)" by (cases e) auto
  from assms(2) have c: "lo \<le> c" "c \<le> hi" by (simp_all add: e covers_def)
  from assms(1) have "t + hi < fst r + lo \<or> snd r < t"
    by (auto simp: e image_outside_def split: if_splits)
  with c show ?thesis by (auto simp: e image_of_def)
qed

lemma tolower_not_space: "\<not> py_isspace c \<Longrightarrow> \<not> py_isspace (unicode_tolower c)"
proof (cases "uncovered c")
  case True
  then show "\<not> py_isspace c \<Longrightarrow> ?thesis" by (simp add: tolower_uncovered)
next
  case False
  then obtain e where e: "e \<in> set lowercase_table" "covers e c"
    "unicode_tolower c = image_of e c"
    using tolower_covered by blast
  have "\<not> (fst r \<le> image_of e c \<and> image_of e c \<le> snd r)" if "r \<in> set whitespace_ranges" for r
    using lowercase_table_no_space e(1,2) that covers_image_outside
    by (auto simp: list_all_iff)
  then show ?thesis by (auto simp: py_isspace_def in_ranges_def list_ex_iff e(3))
qed

lemma covered_0x130: "\<not> uncovered 0x130"
proof -
  have "(0x130, 0x130, 1, 0x69) \<in> set lowercase_table"
    by (simp add: lowercase_table_def)
  moreover have "covers (0x130, 0x130, 1, 0x69) 0x130" by (simp add: covers_def)
  ultimately show ?thesis unfolding uncovered_iff by blast
qed

lemma covered_0x3A3: "\<not> uncovered 0x3A3"
proof -
  have "(0x3A3, 0x3AB, 1, 0x3C3) \<in> set lowercase_table"
    by (simp add: lowercase_table_def)
  moreover have "covers (0x3A3, 0x3AB, 1, 0x3C3) 0x3A3" by (simp add: covers_def)
  ultimately show ?thesis unfolding uncovered_iff by blast
qed

lemma uncovered_not_special: "uncovered c \<Longrightarrow> c \<noteq> 0x130 \<and> c \<noteq> 0x3A3"
  using covered_0x130 covered_0x3A3 by auto

lemma tolower_0x3A3: "unicode_tolower 0x3A3 = 0x3C3"
proof -
  have "find (\<lambda>e. covers e 0x3A3) lowercase_table = Some (0x3A3, 0x3AB, 1, 0x3C3)"
    by (simp add: lowercase_table_def covers_def)
  then show ?thesis by (simp add: unicode_tolower_def image_of_def)
qed

lemma tolower_0x49: "unicode_tolower 0x49 = 0x69"
proof -
  have "find (\<lambda>e. covers e 0x49) lowercase_table = Some (0x41, 0x5A, 1, 0x61)"
    by (simp add: lowercase_table_def covers_def)
  then show ?thesis by (simp add: unicode_tolower_def image_of_def)
qed

lemma uncovered_0x3C3: "uncovered 0x3C3"
  using uncovered_tolower [of "0x3A3"] by (simp add: tolower_0x3A3)

lemma uncovered_0x69: "uncovered 0x69"
  using uncovered_tolower [of "0x49"] by (simp add: tolower_0x49)

lemma ranges_above:
  "list_all (\<lambda>e. n \<le> fst e) tbl \<Longrightarrow> c < n \<Longrightarrow> find (\<lambda>e. covers e c) tbl = None"
  by (auto simp: find_None_iff list_all_iff covers_def)

lemma ranges_miss:
  "list_all (\<lambda>e. c < fst e \<or> fst (snd e) < c) tbl \<Longrightarrow> find (\<lambda>e. covers e c) tbl = None"
  by (auto simp: find_None_iff list_all_iff covers_def)

lemma uncovered_0x3C2: "uncovered 0x3C2"
  unfolding uncovered_def
  by (rule ranges_miss) (simp add: lowercase_table_def)

lemma uncovered_0x307: "uncovered 0x307"
  unfolding uncovered_def
  by (rule ranges_miss) (simp add: lowercase_table_def)

lemma uncovered_0x131: "uncovered 0x131"
  unfolding uncovered_def
  by (rule ranges_miss) (simp add: lowercase_table_def)

lemma uncovered_0x17F: "uncovered 0x17F"
  unfolding uncovered_def
  by (rule ranges_miss) (simp add: lowercase_table_def)

lemma find_ascii:
  assumes "c < 0x80"
  shows "find (\<lambda>e. covers e c) lowercase_table =
           (if 0x41 \<le> c \<and> c \<le> 0x5A then Some (0x41, 0x5A, 1, 0x61) else None)"
proof -
  have split: "lowercase_table = (0x41, 0x5A, 1, 0x61) # tl lowercase_table"
    by (simp add: lowercase_table_def)
  have "list_all (\<lambda>e. 0x80 \<le> fst e) (tl lowercase_table)"
    by (simp add: lowercase_table_def)
  then have rest: "find (\<lambda>e. covers e c) (tl lowercase_table) = None"
    using assms by (rule ranges_above)
  have "find (\<lambda>e. covers e c) lowercase_table =
          (if covers (0x41, 0x5A, 1, 0x61) c then Some (0x41, 0x5A, 1, 0x61) else None)"
    by (subst split) (simp add: rest)
  moreover have "covers (0x41, 0x5A, 1, 0x61) c = (0x41 \<le> c \<and> c \<le> 0x5A)"
    by (simp add: covers_def)
  ultimately show ?thesis by simp
qed

lemma tolower_ascii:
  "c < 0x80 \<Longrightarrow> unicode_tolower c = (if 0x41 \<le> c \<and> c \<le> 0x5A then c + 0x20 else c)"
  by (simp add: unicode_tolower_def image_of_def find_ascii)

lemma uncovered_ascii: "c < 0x80 \<Longrightarrow> \<not> (0x41 \<le> c \<and> c \<le> 0x5A) \<Longrightarrow> uncovered c"
  by (simp add: uncovered_def find_ascii)

lemma space_ascii:
  "c < 0x80 \<Longrightarrow> py_isspace c = ((0x09 \<le> c \<and> c \<le> 0x0D) \<or> (0x1C \<le> c \<and> c \<le> 0x20))"
  by (auto simp: py_isspace_def in_ranges_def whitespace_ranges_def)

section \<open>Facts about str.strip and str.lower\<close>

lemma not_space_images:
  "\<not> py_isspace 0x3C2" "\<not> py_isspace 0x3C3" "\<not> py_isspace 0x69" "\<not> py_isspace 0x307"
  by (simp_all add: py_isspace_def in_ranges_def whitespace_ranges_def)

lemma handle_capital_sigma_cases:
  "handle_capital_sigma s i = 0x3C2 \<or> handle_capital_sigma s i = 0x3C3"
  by (simp add: handle_capital_sigma_def Let_def)

lemma lower_ucs4_not_empty: "lower_ucs4 s i \<noteq> []"
  by (simp add: lower_ucs4_def tolower_full_def Let_def)

lemma lower_ucs4_uncovered:
  assumes "x \<in> set (lower_ucs4 s i)"
  shows "uncovered x"
proof (cases "s ! i = 0x3A3")
  case True
  with assms have "x = handle_capital_sigma s i" by (simp add: lower_ucs4_def)
  with handle_capital_sigma_cases [of s i] show ?thesis
    by (auto simp: uncovered_0x3C2 uncovered_0x3C3)
next
  case False
  with assms have x: "x \<in> set (tolower_full (s ! i))" by (simp add: lower_ucs4_def)
  show ?thesis
  proof (cases "s ! i = 0x130")
    case True
    with x show ?thesis by (auto simp: tolower_full_def uncovered_0x69 uncovered_0x307)
  next
    case False
    with x show ?thesis by (simp add: tolower_full_def uncovered_tolower)
  qed
qed

lemma lower_ucs4_not_space:
  assumes "\<not> py_isspace (s ! i)" and "x \<in> set (lower_ucs4 s i)"
  shows "\<not> py_isspace x"
proof (cases "s ! i = 0x3A3")
  case True
  with assms(2) have "x = handle_capital_sigma s i" by (simp add: lower_ucs4_def)
  with handle_capital_sigma_cases [of s i] show ?thesis
    by (auto simp: not_space_images)
next
  case False
  with assms(2) have x: "x \<in> set (tolower_full (s ! i))" by (simp add: lower_ucs4_def)
  show ?thesis
  proof (cases "s ! i = 0x130")
    case True
    with x show ?thesis by (auto simp: tolower_full_def not_space_images)
  next
    case False
    with x assms(1) show ?thesis by (simp add: tolower_full_def tolower_not_space)
  qed
qed

lemma py_lower_uncovered: "x \<in> set (py_lower s) \<Longrightarrow> uncovered x"
  by (auto simp: py_lower_def lower_ucs4_uncovered)

lemma lower_ucs4_fixed:
  assumes "uncovered (t ! i)"
  shows "lower_ucs4 t i = [t ! i]"
  using uncovered_not_special [OF assms] tolower_uncovered [OF assms]
  by (simp add: lower_ucs4_def tolower_full_def)

lemma py_lower_fixed:
  assumes "\<forall>x \<in> set t. uncovered x"
  shows "py_lower t = t"
proof -
  have eq: "map (lower_ucs4 t) [0..<length t] = map (\<lambda>i. [t ! i]) [0..<length t]"
    using assms by (intro map_cong refl) (simp add: lower_ucs4_fixed)
  have "py_lower t = concat (map (\<lambda>i. [t ! i]) [0..<length t])"
    unfolding py_lower_def by (simp only: eq)
  also have "\<dots> = map (\<lambda>i. t ! i) [0..<length t]"
    by (rule concat_map_singleton)
  also have "\<dots> = t" by (rule map_nth)
  finally show ?thesis .
qed

lemma py_lower_idem: "py_lower (py_lower s) = py_lower s"
  by (rule py_lower_fixed) (simp add: py_lower_uncovered)

lemma py_lower_Nil: "py_lower [] = []"
  by (simp add: py_lower_def)

lemma py_lower_edges:
  assumes "u \<noteq> []" and "\<not> py_isspace (hd u)" and "\<not> py_isspace (last u)"
  shows "py_lower u \<noteq> [] \<and> \<not> py_isspace (hd (py_lower u)) \<and> \<not> py_isspace (last (py_lower u))"
proof -
  from assms(1) obtain m where m: "length u = Suc m" by (cases u) auto
  have first: "[0..<length u] = 0 # [Suc 0..<length u]"
    using m by (simp add: upt_conv_Cons)
  have final: "[0..<length u] = [0..<m] @ [m]"
    using m by simp
  have hd_u: "u ! 0 = hd u" using assms(1) by (simp add: hd_conv_nth)
  have last_u: "u ! m = last u" using assms(1) m by (simp add: last_conv_nth)
  have a: "py_lower u = lower_ucs4 u 0 @ concat (map (lower_ucs4 u) [Suc 0..<length u])"
    unfolding py_lower_def by (subst first) simp
  have b: "py_lower u = concat (map (lower_ucs4 u) [0..<m]) @ lower_ucs4 u m"
    unfolding py_lower_def by (subst final) simp
  have ne: "py_lower u \<noteq> []" using a lower_ucs4_not_empty by simp
  have "hd (py_lower u) = hd (lower_ucs4 u 0)"
    using a lower_ucs4_not_empty by simp
  then have "hd (py_lower u) \<in> set (lower_ucs4 u 0)"
    using lower_ucs4_not_empty [of u 0] by simp
  then have h: "\<not> py_isspace (hd (py_lower u))"
    using lower_ucs4_not_space [of u 0] assms(2) hd_u by simp
  have "last (py_lower u) = last (lower_ucs4 u m)"
    using b lower_ucs4_not_empty by simp
  then have "last (py_lower u) \<in> set (lower_ucs4 u m)"
    using lower_ucs4_not_empty [of u m] by simp
  then have l: "\<not> py_isspace (last (py_lower u))"
    using lower_ucs4_not_space [of u m] assms(3) last_u by simp
  from ne h l show ?thesis by simp
qed

lemma last_dropWhile: "dropWhile P xs \<noteq> [] \<Longrightarrow> last (dropWhile P xs) = last xs"
  by (induction xs) (auto split: if_splits)

lemma py_strip_edges:
  "py_strip s = [] \<or> (\<not> py_isspace (hd (py_strip s)) \<and> \<not> py_isspace (last (py_strip s)))"
proof (cases "py_strip s = []")
  case True
  then show ?thesis by simp
next
  case False
  define d where "d = dropWhile py_isspace s"
  define r where "r = dropWhile py_isspace (rev d)"
  have s: "py_strip s = rev r" by (simp add: py_strip_def d_def r_def)
  with False have r: "r \<noteq> []" by simp
  then have d: "d \<noteq> []" by (auto simp: r_def)
  have "\<not> py_isspace (hd r)" using r unfolding r_def by (rule hd_dropWhile)
  then have l: "\<not> py_isspace (last (py_strip s))" using r by (simp add: s last_rev)
  have "last r = last (rev d)" using r unfolding r_def by (rule last_dropWhile)
  then have "hd (py_strip s) = hd d" using r d by (simp add: s hd_rev last_rev)
  moreover have "\<not> py_isspace (hd d)" using d unfolding d_def by (rule hd_dropWhile)
  ultimately show ?thesis using l by simp
qed

lemma py_strip_id:
  assumes "t = [] \<or> (\<not> py_isspace (hd t) \<and> \<not> py_isspace (last t))"
  shows "py_strip t = t"
proof (cases "t = []")
  case True
  then show ?thesis by (simp add: py_strip_def)
next
  case False
  with assms have e: "\<not> py_isspace (hd t)" "\<not> py_isspace (last t)" by simp_all
  from False e(1) have "dropWhile py_isspace t = t" by (cases t) simp_all
  moreover from False e(2) have "dropWhile py_isspace (rev t) = rev t"
    by (cases "rev t") (simp_all add: hd_rev [symmetric])
  ultimately show ?thesis by (simp add: py_strip_def)
qed

lemma py_strip_spaces: "list_all py_isspace s \<Longrightarrow> py_strip s = []"
proof -
  assume "list_all py_isspace s"
  then have "dropWhile py_isspace s = []"
    by (simp only: dropWhile_eq_Nil_conv list_all_iff)
  then show ?thesis by (simp only: py_strip_def rev.simps dropWhile.simps)
qed

lemma normalize_input_edges:
  "normalize_input x = [] \<or>
   (\<not> py_isspace (hd (normalize_input x)) \<and> \<not> py_isspace (last (normalize_input x)))"
proof (cases x)
  case None
  then show ?thesis by (simp add: normalize_input_def)
next
  case (Some s)
  show ?thesis
  proof (cases "py_strip s = []")
    case True
    then show ?thesis by (simp add: Some normalize_input_def py_lower_Nil)
  next
    case False
    with py_strip_edges [of s] py_lower_edges [of "py_strip s"]
    show ?thesis by (simp add: Some normalize_input_def)
  qed
qed

lemma normalize_input_uncovered: "c \<in> set (normalize_input x) \<Longrightarrow> uncovered c"
  by (cases x) (simp_all add: normalize_input_def py_lower_uncovered)

lemma normalize_input_fixed: "normalize_input (Some (normalize_input x)) = normalize_input x"
proof -
  have "py_strip (normalize_input x) = normalize_input x"
    using normalize_input_edges by (rule py_strip_id)
  moreover have "py_lower (normalize_input x) = normalize_input x"
    by (rule py_lower_fixed) (simp add: normalize_input_uncovered)
  ultimately show ?thesis by (simp add: normalize_input_def)
qed

section \<open>Facts about matching\<close>

lemma extra_cases_ascii:
  "a < 0x80 \<Longrightarrow>
     map_of EXTRA_CASES a =
       (if a = 0x69 then Some [0x131] else if a = 0x73 then Some [0x17F] else None)"
  by (simp add: EXTRA_CASES_def)

lemma literal_ignore_fold:
  assumes "uncovered c" and "pat_char a"
  shows "literal_ignore a c = (fold_extra c = a)"
proof (cases "0x61 \<le> a \<and> a \<le> 0x7A")
  case True
  then have a: "a < 0x80" "unicode_iscased a" by (simp_all add: unicode_iscased_def)
  from True have lo: "unicode_tolower a = a" by (simp add: tolower_ascii)
  from assms(1) have c: "unicode_tolower c = c" by (rule tolower_uncovered)
  have "literal_ignore a c =
          (c = a \<or> (a = 0x69 \<and> c = 0x131) \<or> (a = 0x73 \<and> c = 0x17F))"
    by (simp add: literal_ignore_def a lo c extra_cases_ascii Let_def)
  also have "\<dots> = (fold_extra c = a)"
    using True by (auto simp: fold_extra_def)
  finally show ?thesis .
next
  case False
  with assms(2) have "a = 0x20 \<or> a = 0x27" by (simp add: pat_char_def)
  then show ?thesis
    by (auto simp: literal_ignore_def unicode_iscased_def fold_extra_def)
qed

lemma sre_match_expand:
  assumes "list_all char_item ops" and "\<forall>c \<in> set n. uncovered c"
    and "n = [] \<or> last n \<noteq> 0x0A"
  shows "sre_match (ops @ [AT_END]) b n = (map fold_extra n \<in> set (expand ops))"
  using assms
proof (induction ops arbitrary: n b)
  case Nil
  then show ?case by auto
next
  case (Cons item ops)
  from Cons.prems(1) have items: "list_all char_item ops" by simp
  have rest: "sre_match (ops @ [AT_END]) b' r = (map fold_extra r \<in> set (expand ops))"
    if "n = c # r" for c r b'
  proof (rule Cons.IH [OF items])
    show "\<forall>c \<in> set r. uncovered c" using Cons.prems(2) that by simp
    show "r = [] \<or> last r \<noteq> 0x0A" using Cons.prems(3) that by (cases r) simp_all
  qed
  have here: "sre_match (ops @ [AT_END]) b n = (map fold_extra n \<in> set (expand ops))"
    by (rule Cons.IH [OF items Cons.prems(2,3)])
  show ?case
  proof (cases item)
    case (LITERAL a)
    with Cons.prems(1) have a: "pat_char a" by simp
    show ?thesis
    proof (cases n)
      case Nil
      then show ?thesis by (auto simp: LITERAL)
    next
      case (Cons c r)
      have "uncovered c" using Cons.prems(2) Cons by simp
      then show ?thesis
        by (auto simp: LITERAL Cons rest [OF Cons] literal_ignore_fold [OF _ a])
    qed
  next
    case (MAX_REPEAT_0_1 a)
    with Cons.prems(1) have a: "pat_char a" by simp
    show ?thesis
    proof (cases n)
      case Nil
      then show ?thesis using here by (auto simp: MAX_REPEAT_0_1)
    next
      case (Cons c r)
      have "uncovered c" using Cons.prems(2) Cons by simp
      then show ?thesis
        using here
        by (auto simp: MAX_REPEAT_0_1 Cons rest [OF Cons] literal_ignore_fold [OF _ a])
    qed
  qed (use Cons.prems(1) in simp_all)
qed

lemma re_match_anchored:
  assumes "anchored p" and "\<forall>c \<in> set n. uncovered c" and "n = [] \<or> last n \<noteq> 0x0A"
  shows "re_match p n = (map fold_extra n \<in> set (phrases_of p))"
proof -
  from assms(1) obtain ops where p: "sre_parse p = AT_BEGINNING # ops"
    and ops: "ops \<noteq> []" "last ops = AT_END" "list_all char_item (butlast ops)"
    by (auto simp: anchored_def split: list.splits sre_op.splits)
  from ops(1,2) have split: "ops = butlast ops @ [AT_END]"
    by (metis append_butlast_last_id)
  have "re_match p n = sre_match (butlast ops @ [AT_END]) True n"
    unfolding re_match_def p using split by simp
  also have "\<dots> = (map fold_extra n \<in> set (expand (butlast ops)))"
    by (rule sre_match_expand [OF ops(3) assms(2,3)])
  finally show ?thesis by (simp add: phrases_of_def p)
qed

lemma match_any_phrases:
  assumes "list_all anchored ps" and "\<forall>c \<in> set n. uncovered c" and "n = [] \<or> last n \<noteq> 0x0A"
  shows "match_any ps n = (map fold_extra n \<in> set (concat (map phrases_of ps)))"
  using assms(1)
  by (induction ps) (auto simp: re_match_anchored [OF _ assms(2,3)])

lemma space_0x0A: "py_isspace 0x0A"
  by (simp add: py_isspace_def in_ranges_def whitespace_ranges_def)

lemma match_any_normalized:
  assumes "list_all anchored ps"
  shows "match_any ps (normalize_input x) =
           (map fold_extra (normalize_input x) \<in> set (concat (map phrases_of ps)))"
proof (rule match_any_phrases [OF assms])
  show "\<forall>c \<in> set (normalize_input x). uncovered c"
    by (simp add: normalize_input_uncovered)
  show "normalize_input x = [] \<or> last (normalize_input x) \<noteq> 0x0A"
    using normalize_input_edges [of x] space_0x0A by auto
qed

section \<open>Facts about the pattern lists and the dictionaries\<close>

lemmas parse_simps =
  anchored_def phrases_of_def sre_parse_def is_literal_token_def SPECIAL_CHARS_def
  ascii_alnum_def pat_char_def py_def

lemma hello_patterns_supported:
  "list_all (\<lambda>p. UNSUPPORTED \<notin> set (sre_parse p)) (hello_patterns @ hello_patterns_second)"
  by (simp add: hello_patterns_def hello_patterns_second_def parse_simps)

lemma hello_patterns_anchored: "list_all anchored hello_patterns"
  by (simp add: hello_patterns_def parse_simps)

lemma hello_patterns_second_anchored: "list_all anchored hello_patterns_second"
  by (simp add: hello_patterns_second_def parse_simps)

lemma hello_phrases: "concat (map phrases_of hello_patterns) = map fst responses"
  by (simp add: hello_patterns_def responses_def parse_simps)

lemma hello_phrases_second:
  "remdups_adj (concat (map phrases_of hello_patterns_second)) = map fst responses_second"
  by (simp add: hello_patterns_second_def responses_second_def parse_simps)

section \<open>Facts about the greeting scripts\<close>

lemma is_hello_command_folded:
  "is_hello_command s =
     (map fold_extra (normalize_input (Some s)) \<in> set (map fst responses))"
  unfolding is_hello_command_def Let_def
  by (simp only: match_any_normalized [OF hello_patterns_anchored] hello_phrases)

lemma is_hello_command_second_folded:
  "is_hello_command_second s =
     (map fold_extra (normalize_input (Some s)) \<in> set (map fst responses_second))"
proof -
  have "set (concat (map phrases_of hello_patterns_second)) = set (map fst responses_second)"
    using hello_phrases_second remdups_adj_set by metis
  then show ?thesis
    unfolding is_hello_command_second_def Let_def
    by (simp only: match_any_normalized [OF hello_patterns_second_anchored])
qed

lemma fold_extra_id: "0x131 \<notin> set n \<Longrightarrow> 0x17F \<notin> set n \<Longrightarrow> map fold_extra n = n"
  by (induction n) (auto simp: fold_extra_def)

lemma normalize_fixed_point:
  assumes "\<forall>c \<in> set t. uncovered c"
    and "t = [] \<or> (\<not> py_isspace (hd t) \<and> \<not> py_isspace (last t))"
  shows "normalize_input (Some t) = t"
  using py_strip_id [OF assms(2)] py_lower_fixed [OF assms(1)]
  by (simp add: normalize_input_def)

lemma plain_phrase_uncovered: "plain_phrase k \<Longrightarrow> c \<in> set k \<Longrightarrow> uncovered c"
  by (auto simp: plain_phrase_def list_all_iff uncovered_ascii)

lemma plain_phrase_normalized: "plain_phrase k \<Longrightarrow> normalize_input (Some k) = k"
  by (rule normalize_fixed_point) (auto simp: plain_phrase_uncovered, simp_all add: plain_phrase_def)

lemma plain_phrase_folded: "plain_phrase k \<Longrightarrow> map fold_extra k = k"
  by (rule fold_extra_id) (auto simp: plain_phrase_def list_all_iff)

lemma variant_char:
  assumes "a < 0x80" and "\<not> (0x41 \<le> a \<and> a \<le> 0x5A)"
    and "b = a \<or> (0x61 \<le> a \<and> a \<le> 0x7A \<and> b + 0x20 = a)"
  shows "b < 0x80" and "unicode_tolower b = a" and "\<not> py_isspace a \<Longrightarrow> \<not> py_isspace b"
proof -
  show b: "b < 0x80" using assms by auto
  show "unicode_tolower b = a" using assms b by (auto simp: tolower_ascii)
  show "\<not> py_isspace a \<Longrightarrow> \<not> py_isspace b"
    using assms b by (auto simp: space_ascii)
qed

lemma variant_nth:
  assumes "plain_phrase k" and "case_variant k v" and "i < length k"
  shows "v ! i < 0x80" and "unicode_tolower (v ! i) = k ! i"
    and "\<not> py_isspace (k ! i) \<Longrightarrow> \<not> py_isspace (v ! i)"
proof -
  from assms(1,3) have a: "k ! i < 0x80" "\<not> (0x41 \<le> k ! i \<and> k ! i \<le> 0x5A)"
    by (auto simp: plain_phrase_def list_all_length)
  from assms(2,3) have
    b: "v ! i = k ! i \<or> (0x61 \<le> k ! i \<and> k ! i \<le> 0x7A \<and> v ! i + 0x20 = k ! i)"
    by (auto simp: case_variant_def list_all2_conv_all_nth)
  show "v ! i < 0x80" by (rule variant_char(1) [OF a b])
  show "unicode_tolower (v ! i) = k ! i" by (rule variant_char(2) [OF a b])
  show "\<not> py_isspace (k ! i) \<Longrightarrow> \<not> py_isspace (v ! i)" by (rule variant_char(3) [OF a b])
qed

lemma variant_length: "case_variant k v \<Longrightarrow> length v = length k"
  by (simp add: case_variant_def list_all2_lengthD)

lemma variant_lower:
  assumes "plain_phrase k" and "case_variant k v"
  shows "py_lower v = k"
proof -
  have len: "length v = length k" using assms(2) by (rule variant_length)
  have piece: "lower_ucs4 v i = [k ! i]" if "i < length k" for i
  proof -
    from variant_nth(1) [OF assms that] have "v ! i \<noteq> 0x3A3" "v ! i \<noteq> 0x130" by auto
    then show ?thesis
      by (simp add: lower_ucs4_def tolower_full_def variant_nth(2) [OF assms that])
  qed
  have eq: "map (lower_ucs4 v) [0..<length k] = map (\<lambda>i. [k ! i]) [0..<length k]"
    by (intro map_cong refl) (simp add: piece)
  have "py_lower v = concat (map (\<lambda>i. [k ! i]) [0..<length k])"
    unfolding py_lower_def len by (simp only: eq)
  also have "\<dots> = map (\<lambda>i. k ! i) [0..<length k]" by (rule concat_map_singleton)
  also have "\<dots> = k" by (rule map_nth)
  finally show ?thesis .
qed

lemma variant_strip:
  assumes "plain_phrase k" and "case_variant k v"
    and "list_all py_isspace l" and "list_all py_isspace r"
  shows "py_strip (l @ v @ r) = v"
proof -
  have len: "length v = length k" using assms(2) by (rule variant_length)
  from assms(1) have k: "k \<noteq> []" "\<not> py_isspace (hd k)" "\<not> py_isspace (last k)"
    by (simp_all add: plain_phrase_def)
  from k(1) len have v: "v \<noteq> []" by auto
  have "\<not> py_isspace (v ! 0)"
    using variant_nth(3) [OF assms(1,2), of 0] k by (simp add: hd_conv_nth)
  then have h: "\<not> py_isspace (hd v)" using v by (simp add: hd_conv_nth)
  have "\<not> py_isspace (v ! (length k - 1))"
    using variant_nth(3) [OF assms(1,2), of "length k - 1"] k by (simp add: last_conv_nth)
  then have e: "\<not> py_isspace (last v)" using v len by (simp add: last_conv_nth)
  have "dropWhile py_isspace (l @ v @ r) = dropWhile py_isspace (v @ r)"
    using assms(3) by (simp add: list_all_iff dropWhile_append2)
  also have "\<dots> = v @ r" using v h by (cases v) simp_all
  finally have lead: "dropWhile py_isspace (l @ v @ r) = v @ r" .
  have "dropWhile py_isspace (rev r @ rev v) = dropWhile py_isspace (rev v)"
    using assms(4) by (intro dropWhile_append2) (simp add: list_all_iff)
  also have "\<dots> = rev v" using v e by (cases "rev v") (simp_all add: hd_rev [symmetric])
  finally have trail: "dropWhile py_isspace (rev (v @ r)) = rev v" by simp
  show ?thesis unfolding py_strip_def lead trail by simp
qed

lemma variant_normalize:
  assumes "plain_phrase k" and "case_variant k v"
    and "list_all py_isspace l" and "list_all py_isspace r"
  shows "normalize_input (Some (l @ v @ r)) = k" and "py_strip (l @ v @ r) \<noteq> []"
proof -
  show "normalize_input (Some (l @ v @ r)) = k"
    by (simp add: normalize_input_def variant_strip [OF assms] variant_lower [OF assms(1,2)])
  from assms(1) have "k \<noteq> []" by (simp add: plain_phrase_def)
  with variant_length [OF assms(2)] have "v \<noteq> []" by auto
  then show "py_strip (l @ v @ r) \<noteq> []" by (simp add: variant_strip [OF assms])
qed

lemma plain_exit_commands: "list_all plain_phrase exit_commands"
  by (simp add: exit_commands_def plain_phrase_def py_def py_isspace_def in_ranges_def
      whitespace_ranges_def)

lemma plain_help_commands: "list_all plain_phrase help_commands"
  by (simp add: help_commands_def plain_phrase_def py_def py_isspace_def in_ranges_def
      whitespace_ranges_def)

lemma plain_responses: "list_all plain_phrase (map fst responses)"
  by (simp add: responses_def plain_phrase_def py_def py_isspace_def in_ranges_def
      whitespace_ranges_def)

lemma plain_responses_second: "list_all plain_phrase (map fst responses_second)"
  by (simp add: responses_second_def plain_phrase_def py_def py_isspace_def in_ranges_def
      whitespace_ranges_def)

lemma distinct_responses: "distinct (map fst responses)"
  by (simp add: responses_def py_def)

lemma distinct_responses_second: "distinct (map fst responses_second)"
  by (simp add: responses_second_def py_def)

lemma exit_help_disjoint: "set exit_commands \<inter> set help_commands = {}"
  by (simp add: exit_commands_def help_commands_def py_def)

lemma empty_not_command:
  "[] \<notin> set exit_commands" "[] \<notin> set help_commands"
  "[] \<notin> set (map fst responses)" "[] \<notin> set (map fst responses_second)"
  using plain_exit_commands plain_help_commands plain_responses plain_responses_second
  by (auto simp: list_all_iff plain_phrase_def)

lemma dict_get_member:
  assumes "distinct (map fst d)" and "(k, r) \<in> set d"
  shows "dict_get d k dflt = r"
proof -
  have "distinct (map fst (rev d))" using assms(1) by (simp add: rev_map [symmetric])
  moreover have "(k, r) \<in> set (rev d)" using assms(2) by simp
  ultimately have "map_of (rev d) k = Some r" by (rule map_of_is_SomeI)
  then show ?thesis by (simp add: dict_get_def)
qed

lemma dict_get_key:
  assumes "distinct (map fst d)" and "k \<in> set (map fst d)"
  shows "(k, dict_get d k dflt) \<in> set d"
proof -
  from assms(2) obtain r where r: "(k, r) \<in> set d" by auto
  with dict_get_member [OF assms(1) r] show ?thesis by simp
qed

lemma greeting_line_inject: "(greeting_line a = greeting_line b) = (a = b)"
  by (simp add: greeting_line_def py_print_def)

lemma no_fallback_response: "fallback_response \<notin> snd ` set responses"
  by (simp add: responses_def fallback_response_def py_def)

lemma no_fallback_response_second: "fallback_response \<notin> snd ` set responses_second"
  by (simp add: responses_second_def fallback_response_def py_def)

lemma keys_not_commands:
  "set (map fst responses) \<inter> (set exit_commands \<union> set help_commands) = {}"
  by (simp add: responses_def exit_commands_def help_commands_def py_def)

lemma keys_second_not_commands:
  "set (map fst responses_second) \<inter> (set exit_commands \<union> set help_commands) = {}"
  by (simp add: responses_second_def exit_commands_def help_commands_def py_def)

lemma normalize_blank: "py_strip s = [] \<Longrightarrow> normalize_input (Some s) = []"
  by (simp add: normalize_input_def py_lower_Nil)

lemma loop_body_classify:
  assumes "\<And>t. is_hello t = (map fold_extra (normalize_input (Some t)) \<in> set catalog)"
    and "[] \<notin> set catalog"
  shows "loop_body is_hello help greet s =
           respond help greet s (classify_folded catalog (normalize_input (Some s)))"
proof (cases "py_strip s = []")
  case True
  then show ?thesis
    using assms(2) empty_not_command(1,2)
    by (simp add: loop_body_def respond_def classify_folded_def normalize_blank)
next
  case False
  then show ?thesis
    by (simp add: loop_body_def respond_def classify_folded_def is_exit_command_def
        is_help_command_def assms(1))
qed

lemma main_loop_continue:
  "loop_body is_hello help greet s = (written, True) \<Longrightarrow>
     main_loop is_hello help greet (Line s # evs)
       = prompt @ written @ main_loop is_hello help greet evs"
  by (simp add: get_user_input_def)

lemma main_loop_break:
  "loop_body is_hello help greet s = (written, False) \<Longrightarrow>
     main_loop is_hello help greet (Line s # evs) = prompt @ written"
  by (simp add: get_user_input_def)

lemma main_loop_eof:
  "main_loop is_hello help greet [] = prompt @ py_print ([0x0A, 0x0A] @ py ''Goodbye!'')"
  by (simp add: get_user_input_def)

lemma space_examples:
  "py_isspace 0x20" "py_isspace 0x09" "py_isspace 0x3000" "\<not> py_isspace 0x17F"
  "\<not> py_isspace 0x131"
  by (simp_all add: py_isspace_def in_ranges_def whitespace_ranges_def)

lemma normalize_long_s:
  assumes "list_all (\<lambda>c. 0x61 \<le> c \<and> c \<le> 0x7A) t"
  shows "normalize_input (Some (0x17F # t)) = 0x17F # t"
proof (rule normalize_fixed_point)
  show "\<forall>c \<in> set (0x17F # t). uncovered c"
    using assms by (auto simp: list_all_iff uncovered_0x17F uncovered_ascii)
  have "\<not> py_isspace (last (0x17F # t))"
  proof (cases t rule: rev_cases)
    case Nil
    then show ?thesis by (simp add: space_examples)
  next
    case (snoc ys y)
    with assms have "0x61 \<le> y \<and> y \<le> 0x7A" by simp
    then show ?thesis by (simp add: snoc space_ascii)
  qed
  then show "0x17F # t = [] \<or>
      (\<not> py_isspace (hd (0x17F # t)) \<and> \<not> py_isspace (last (0x17F # t)))"
    by (simp add: space_examples)
qed

lemma normalize_dotless_i: "normalize_input (Some [0x68, 0x131]) = [0x68, 0x131]"
  by (rule normalize_fixed_point)
    (simp_all add: uncovered_0x131 uncovered_ascii space_examples space_ascii)

section \<open>Facts about the job-status endpoint\<close>

lemma py_inject: "(py a = py b) = (a = b)"
  by (simp add: py_def inj_map_eq_map inj_def)

lemma args_get_absent: "k \<notin> fst ` set kvs \<Longrightarrow> args_get kvs k = None"
  by (induction kvs) auto

section \<open>Normalization\<close>

text \<open>
  C9. Normalization is idempotent: normalizing the result of \<open>normalize_input\<close> again
  gives the same string, whatever the first argument was (a string or \<open>None\<close>); and
  a string that is already trimmed and lowercase is returned unchanged.
\<close>

theorem normalize_input_idempotent:
  "normalize_input (Some (normalize_input x)) = normalize_input x \<and>
   (py_strip t = t \<and> py_lower t = t \<longrightarrow> normalize_input (Some t) = t)"
proof
  have "py_strip (normalize_input x) = normalize_input x"
    using normalize_input_edges by (rule py_strip_id)
  moreover have "py_lower (normalize_input x) = normalize_input x"
    by (rule py_lower_fixed) (simp add: normalize_input_uncovered)
  ultimately show "normalize_input (Some (normalize_input x)) = normalize_input x"
    by (simp add: normalize_input_def)
  show "py_strip t = t \<and> py_lower t = t \<longrightarrow> normalize_input (Some t) = t"
    by (simp add: normalize_input_def)
qed

theorem normalize_input_idempotent_witness:
  "normalize_input (Some (py ''  '' @ py ''HeLLo'' @ py '' '')) = py ''hello'' \<and>
   normalize_input (Some (normalize_input (Some (py ''  '' @ py ''HeLLo'' @ py '' ''))))
     = normalize_input (Some (py ''  '' @ py ''HeLLo'' @ py '' '')) \<and>
   py_strip (py ''hello'') = py ''hello'' \<and> py_lower (py ''hello'') = py ''hello'' \<and>
   normalize_input (Some (py ''hello'')) = py ''hello''"
proof -
  have plain: "plain_phrase (py ''hello'')"
    by (simp add: plain_phrase_def py_def py_isspace_def in_ranges_def whitespace_ranges_def)
  have v: "case_variant (py ''hello'') (py ''HeLLo'')"
    by (simp add: case_variant_def py_def)
  have sp: "list_all py_isspace (py ''  '')" "list_all py_isspace (py '' '')"
    by (simp_all add: py_def space_examples)
  have n: "normalize_input (Some (py ''  '' @ py ''HeLLo'' @ py '' '')) = py ''hello''"
    by (rule variant_normalize(1) [OF plain v sp])
  have s: "py_strip (py ''hello'') = py ''hello''"
    using plain by (intro py_strip_id) (simp add: plain_phrase_def)
  have l: "py_lower (py ''hello'') = py ''hello''"
    using plain by (intro py_lower_fixed) (simp add: plain_phrase_uncovered)
  show ?thesis
    using normalize_input_idempotent
            [of "Some (py ''  '' @ py ''HeLLo'' @ py '' '')" "py ''hello''"] n s l
    by simp
qed

section \<open>Greetings\<close>

text \<open>
  C2, as stated, fails: the input U+017F U+0075 U+0070 (long s, u, p) is its own normal
  form and is not one of the phrases, yet \<open>is_hello_command\<close> of hello_second.py accepts
  it, because \<open>re.IGNORECASE\<close> lets the pattern character \<open>s\<close> match U+017F. In the
  same way \<open>is_hello_command\<close> of hello.py accepts U+0068 U+0131.
\<close>

theorem is_hello_command_literal_counterexample:
  "is_hello_command_second [0x17F, 0x75, 0x70] \<and>
   normalize_input (Some [0x17F, 0x75, 0x70]) \<notin> set (map fst responses_second) \<and>
   is_hello_command [0x68, 0x131] \<and>
   normalize_input (Some [0x68, 0x131]) \<notin> set (map fst responses)"
proof -
  have n: "normalize_input (Some [0x17F, 0x75, 0x70]) = [0x17F, 0x75, 0x70]"
    by (rule normalize_long_s) simp
  have "py ''sup'' \<in> set (map fst responses_second)" "py ''hi'' \<in> set (map fst responses)"
    by (simp_all add: responses_second_def responses_def)
  then have a: "is_hello_command_second [0x17F, 0x75, 0x70]" "is_hello_command [0x68, 0x131]"
    by (simp_all add: is_hello_command_second_folded is_hello_command_folded n
        normalize_dotless_i fold_extra_def py_def)
  have "plain_phrase k" if "k \<in> set (map fst responses_second) \<union> set (map fst responses)" for k
    using plain_responses_second plain_responses that by (auto simp only: list_all_iff)
  moreover have "\<not> plain_phrase [0x17F, 0x75, 0x70]" "\<not> plain_phrase [0x68, 0x131]"
    by (simp_all add: plain_phrase_def)
  ultimately have b: "[0x17F, 0x75, 0x70] \<notin> set (map fst responses_second)"
    "[0x68, 0x131] \<notin> set (map fst responses)"
    by blast+
  from a b show ?thesis by (simp only: n normalize_dotless_i simp_thms)
qed

text \<open>
  C2, amended. The phrases that the anchored patterns spell are exactly the keys of the
  responses, and \<open>is_hello_command\<close> holds exactly when the normalized input, with U+0131
  read as \<open>i\<close> and U+017F read as \<open>s\<close>, is one of them. For an input whose normal form
  contains neither of the two code points (in particular an ASCII input) it holds
  exactly when the normalized input itself is one of the phrases.
\<close>

theorem is_hello_command_folded_literal:
  "set (concat (map phrases_of hello_patterns)) = set (map fst responses) \<and>
   set (concat (map phrases_of hello_patterns_second)) = set (map fst responses_second) \<and>
   is_hello_command s
     = (map fold_extra (normalize_input (Some s)) \<in> set (map fst responses)) \<and>
   is_hello_command_second s
     = (map fold_extra (normalize_input (Some s)) \<in> set (map fst responses_second)) \<and>
   (0x131 \<notin> set (normalize_input (Some s)) \<and> 0x17F \<notin> set (normalize_input (Some s)) \<longrightarrow>
      is_hello_command s = (normalize_input (Some s) \<in> set (map fst responses)) \<and>
      is_hello_command_second s
        = (normalize_input (Some s) \<in> set (map fst responses_second)))"
proof (intro conjI impI)
  show "set (concat (map phrases_of hello_patterns)) = set (map fst responses)"
    by (simp only: hello_phrases)
  show "set (concat (map phrases_of hello_patterns_second)) = set (map fst responses_second)"
    using hello_phrases_second remdups_adj_set by metis
  show "is_hello_command s
     = (map fold_extra (normalize_input (Some s)) \<in> set (map fst responses))"
    by (rule is_hello_command_folded)
  show "is_hello_command_second s
     = (map fold_extra (normalize_input (Some s)) \<in> set (map fst responses_second))"
    by (rule is_hello_command_second_folded)
next
  assume "0x131 \<notin> set (normalize_input (Some s)) \<and> 0x17F \<notin> set (normalize_input (Some s))"
  then have f: "map fold_extra (normalize_input (Some s)) = normalize_input (Some s)"
    by (simp add: fold_extra_id)
  show "is_hello_command s = (normalize_input (Some s) \<in> set (map fst responses))"
    by (simp only: is_hello_command_folded f)
  show "is_hello_command_second s
        = (normalize_input (Some s) \<in> set (map fst responses_second))"
    by (simp only: is_hello_command_second_folded f)
qed

theorem is_hello_command_folded_literal_witness:
  "normalize_input (Some ([0x20] @ py ''SUP'' @ [0x0A])) = py ''sup'' \<and>
   0x131 \<notin> set (py ''sup'') \<and> 0x17F \<notin> set (py ''sup'') \<and>
   is_hello_command ([0x20] @ py ''SUP'' @ [0x0A]) = (py ''sup'' \<in> set (map fst responses)) \<and>
   is_hello_command_second ([0x20] @ py ''SUP'' @ [0x0A])
     = (py ''sup'' \<in> set (map fst responses_second)) \<and>
   py ''sup'' \<notin> set (map fst responses) \<and> py ''sup'' \<in> set (map fst responses_second)"
proof -
  have key: "py ''sup'' \<in> set (map fst responses_second)"
    "py ''sup'' \<notin> set (map fst responses)"
    by (simp_all add: responses_second_def responses_def py_def)
  from key(1) have plain: "plain_phrase (py ''sup'')"
    using plain_responses_second by (simp only: list_all_iff)
  have v: "case_variant (py ''sup'') (py ''SUP'')"
    by (simp add: case_variant_def py_def)
  have sp: "list_all py_isspace [0x20]" "list_all py_isspace [0x0A]"
    by (simp_all add: space_examples space_0x0A)
  have n: "normalize_input (Some ([0x20] @ py ''SUP'' @ [0x0A])) = py ''sup''"
    by (rule variant_normalize(1) [OF plain v sp])
  have c: "0x131 \<notin> set (py ''sup'')" "0x17F \<notin> set (py ''sup'')"
    by (simp_all add: py_def)
  note inst = is_hello_command_folded_literal [of "[0x20] @ py ''SUP'' @ [0x0A]", unfolded n]
  show ?thesis
    using inst c n key by blast
qed

text \<open>
  C3. For every key of the responses dictionary (of hello_second.py, and likewise of
  hello.py), every variant of the key in letter case, with any whitespace before and
  after, is classified as a greeting, and \<open>show_greeting\<close> writes the response that the
  dictionary associates with the key; the loop writes that response and goes on.
\<close>

theorem catalog_phrase_greeted:
  "((k, resp) \<in> set responses_second \<and> case_variant k v \<and>
    list_all py_isspace l \<and> list_all py_isspace r \<longrightarrow>
      is_hello_command_second (l @ v @ r) \<and>
      show_greeting_second (l @ v @ r) = greeting_line resp \<and>
      loop_body is_hello_command_second show_help_second show_greeting_second (l @ v @ r)
        = (greeting_line resp, True)) \<and>
   ((k, resp) \<in> set responses \<and> case_variant k v \<and>
    list_all py_isspace l \<and> list_all py_isspace r \<longrightarrow>
      is_hello_command (l @ v @ r) \<and>
      show_greeting (l @ v @ r) = greeting_line resp \<and>
      loop_body is_hello_command show_help show_greeting (l @ v @ r)
        = (greeting_line resp, True))"
proof (intro conjI impI)
  assume h: "(k, resp) \<in> set responses_second \<and> case_variant k v \<and>
    list_all py_isspace l \<and> list_all py_isspace r"
  then have key: "k \<in> set (map fst responses_second)" by force
  then have plain: "plain_phrase k"
    using plain_responses_second by (simp only: list_all_iff)
  from h have n: "normalize_input (Some (l @ v @ r)) = k"
    and ne: "py_strip (l @ v @ r) \<noteq> []"
    using variant_normalize [OF plain] by simp_all
  show g: "is_hello_command_second (l @ v @ r)"
    using key by (simp only: is_hello_command_second_folded n plain_phrase_folded [OF plain])
  from h have m: "(k, resp) \<in> set responses_second" by simp
  show s: "show_greeting_second (l @ v @ r) = greeting_line resp"
    by (simp add: show_greeting_second_def n
        dict_get_member [OF distinct_responses_second m])
  have "k \<notin> set exit_commands" "k \<notin> set help_commands"
    using key keys_second_not_commands by auto
  then show "loop_body is_hello_command_second show_help_second show_greeting_second (l @ v @ r)
        = (greeting_line resp, True)"
    using g s ne by (simp add: loop_body_def is_exit_command_def is_help_command_def n)
next
  assume h: "(k, resp) \<in> set responses \<and> case_variant k v \<and>
    list_all py_isspace l \<and> list_all py_isspace r"
  then have key: "k \<in> set (map fst responses)" by force
  then have plain: "plain_phrase k"
    using plain_responses by (simp only: list_all_iff)
  from h have n: "normalize_input (Some (l @ v @ r)) = k"
    and ne: "py_strip (l @ v @ r) \<noteq> []"
    using variant_normalize [OF plain] by simp_all
  show g: "is_hello_command (l @ v @ r)"
    using key by (simp only: is_hello_command_folded n plain_phrase_folded [OF plain])
  from h have m: "(k, resp) \<in> set responses" by simp
  show s: "show_greeting (l @ v @ r) = greeting_line resp"
    by (simp add: show_greeting_def n dict_get_member [OF distinct_responses m])
  have "k \<notin> set exit_commands" "k \<notin> set help_commands"
    using key keys_not_commands by auto
  then show "loop_body is_hello_command show_help show_greeting (l @ v @ r)
        = (greeting_line resp, True)"
    using g s ne by (simp add: loop_body_def is_exit_command_def is_help_command_def n)
qed

theorem catalog_phrase_greeted_witness:
  "(py ''what's up'', py ''Not much, you? What's up with you?'') \<in> set responses_second \<and>
   case_variant (py ''what's up'') (py ''What'S UP'') \<and>
   list_all py_isspace [0x09, 0x20] \<and> list_all py_isspace [0x3000, 0x0A] \<and>
   is_hello_command_second ([0x09, 0x20] @ py ''What'S UP'' @ [0x3000, 0x0A]) \<and>
   show_greeting_second ([0x09, 0x20] @ py ''What'S UP'' @ [0x3000, 0x0A])
     = greeting_line (py ''Not much, you? What's up with you?'') \<and>
   loop_body is_hello_command_second show_help_second show_greeting_second
       ([0x09, 0x20] @ py ''What'S UP'' @ [0x3000, 0x0A])
     = (greeting_line (py ''Not much, you? What's up with you?''), True) \<and>
   (py ''hola'', [0xA1] @ py ''Hola! Bienvenido!'') \<in> set responses \<and>
   case_variant (py ''hola'') (py ''HOLA'') \<and>
   is_hello_command ([0x09, 0x20] @ py ''HOLA'' @ [0x3000, 0x0A]) \<and>
   show_greeting ([0x09, 0x20] @ py ''HOLA'' @ [0x3000, 0x0A])
     = greeting_line ([0xA1] @ py ''Hola! Bienvenido!'')"
proof -
  have k: "(py ''what's up'', py ''Not much, you? What's up with you?'') \<in> set responses_second"
    "(py ''hola'', [0xA1] @ py ''Hola! Bienvenido!'') \<in> set responses"
    by (simp_all add: responses_second_def responses_def)
  have v: "case_variant (py ''what's up'') (py ''What'S UP'')"
    "case_variant (py ''hola'') (py ''HOLA'')"
    by (simp_all add: case_variant_def py_def)
  have sp: "list_all py_isspace [0x09, 0x20]" "list_all py_isspace [0x3000, 0x0A]"
    by (simp_all add: space_examples space_0x0A)
  show ?thesis
    using catalog_phrase_greeted
            [of "py ''what's up''" "py ''Not much, you? What's up with you?''"
                "py ''What'S UP''" "[0x09, 0x20]" "[0x3000, 0x0A]"]
          catalog_phrase_greeted
            [of "py ''hola''" "[0xA1] @ py ''Hola! Bienvenido!''"
                "py ''HOLA''" "[0x09, 0x20]" "[0x3000, 0x0A]"]
          k v sp
    by simp
qed

text \<open>
  C4, as stated, fails: the input U+0068 U+0131 (h followed by dotless i) is its own
  normal form, \<open>is_hello_command\<close> of hello_second.py accepts it (the pattern \<open>^hi$\<close>
  matches, since \<open>re.IGNORECASE\<close> identifies U+0131 with \<open>i\<close>), it is not a key
  of the responses, and \<open>show_greeting\<close> writes the fallback string.
\<close>

theorem classified_greeting_fallback_counterexample:
  "is_hello_command_second [0x68, 0x131] \<and>
   normalize_input (Some [0x68, 0x131]) \<notin> set (map fst responses_second) \<and>
   show_greeting_second [0x68, 0x131] = greeting_line (py ''Hello! Great to see you!'')"
proof -
  have "py ''hi'' \<in> set (map fst responses_second)"
    by (simp add: responses_second_def)
  then have a: "is_hello_command_second [0x68, 0x131]"
    by (simp add: is_hello_command_second_folded normalize_dotless_i fold_extra_def py_def)
  have "plain_phrase k" if "k \<in> set (map fst responses_second)" for k
    using plain_responses_second that by (simp only: list_all_iff)
  moreover have "\<not> plain_phrase [0x68, 0x131]"
    by (simp add: plain_phrase_def)
  ultimately have b: "[0x68, 0x131] \<notin> set (map fst responses_second)"
    by blast
  then have "map_of (rev responses_second) [0x68, 0x131] = None"
    by (simp add: map_of_eq_None_iff)
  then have "show_greeting_second [0x68, 0x131] = greeting_line fallback_response"
    by (simp add: show_greeting_second_def normalize_dotless_i dict_get_def)
  with a b show ?thesis by (simp add: normalize_dotless_i fallback_response_def)
qed

text \<open>
  C4, amended. Every key of the responses of hello_second.py is its own normal form.
  Whenever \<open>is_hello_command\<close> accepts an input whose normal form contains neither
  U+0131 nor U+017F (in particular an ASCII input), the normal form is a key of the
  responses and \<open>show_greeting\<close> writes the response of that key, which is not the
  fallback string.
\<close>

theorem classified_greeting_has_response:
  "list_all (\<lambda>k. normalize_input (Some k) = k) (map fst responses_second) \<and>
   (is_hello_command_second s \<and>
    0x131 \<notin> set (normalize_input (Some s)) \<and> 0x17F \<notin> set (normalize_input (Some s)) \<longrightarrow>
      normalize_input (Some s) \<in> set (map fst responses_second) \<and>
      (normalize_input (Some s),
         dict_get responses_second (normalize_input (Some s)) fallback_response)
        \<in> set responses_second \<and>
      show_greeting_second s
        = greeting_line
            (dict_get responses_second (normalize_input (Some s)) fallback_response) \<and>
      show_greeting_second s \<noteq> greeting_line fallback_response)"
proof (intro conjI impI)
  have "normalize_input (Some k) = k" if "k \<in> set (map fst responses_second)" for k
    using plain_responses_second that plain_phrase_normalized by (simp only: list_all_iff)
  then show "list_all (\<lambda>k. normalize_input (Some k) = k) (map fst responses_second)"
    by (simp only: list_all_iff) blast
next
  define n where "n = normalize_input (Some s)"
  assume "is_hello_command_second s \<and>
    0x131 \<notin> set (normalize_input (Some s)) \<and> 0x17F \<notin> set (normalize_input (Some s))"
  then have h: "is_hello_command_second s" "0x131 \<notin> set n" "0x17F \<notin> set n"
    by (simp_all add: n_def)
  from h(1) have "map fold_extra n \<in> set (map fst responses_second)"
    by (simp only: is_hello_command_second_folded n_def)
  then have key: "n \<in> set (map fst responses_second)"
    by (simp only: fold_extra_id [OF h(2,3)])
  have entry: "(n, dict_get responses_second n fallback_response) \<in> set responses_second"
    by (rule dict_get_key [OF distinct_responses_second key])
  then have "dict_get responses_second n fallback_response \<in> snd ` set responses_second"
    by force
  then have other: "dict_get responses_second n fallback_response \<noteq> fallback_response"
    using no_fallback_response_second by metis
  have shown: "show_greeting_second s
      = greeting_line (dict_get responses_second n fallback_response)"
    by (simp add: show_greeting_second_def n_def)
  show "normalize_input (Some s) \<in> set (map fst responses_second)"
    using key by (simp only: n_def)
  show "(normalize_input (Some s),
         dict_get responses_second (normalize_input (Some s)) fallback_response)
        \<in> set responses_second"
    using entry by (simp only: n_def)
  show "show_greeting_second s
        = greeting_line
            (dict_get responses_second (normalize_input (Some s)) fallback_response)"
    using shown by (simp only: n_def)
  show "show_greeting_second s \<noteq> greeting_line fallback_response"
    using shown other by (simp add: greeting_line_inject)
qed

theorem classified_greeting_has_response_witness:
  "is_hello_command_second ([0x20] @ py ''Yo'' @ [0x0A]) \<and>
   normalize_input (Some ([0x20] @ py ''Yo'' @ [0x0A])) = py ''yo'' \<and>
   0x131 \<notin> set (py ''yo'') \<and> 0x17F \<notin> set (py ''yo'') \<and>
   py ''yo'' \<in> set (map fst responses_second) \<and>
   (py ''yo'', dict_get responses_second (py ''yo'') fallback_response)
     \<in> set responses_second \<and>
   show_greeting_second ([0x20] @ py ''Yo'' @ [0x0A])
     = greeting_line (dict_get responses_second (py ''yo'') fallback_response) \<and>
   show_greeting_second ([0x20] @ py ''Yo'' @ [0x0A]) \<noteq> greeting_line fallback_response"
proof -
  have key: "py ''yo'' \<in> set (map fst responses_second)"
    by (simp add: responses_second_def)
  then have plain: "plain_phrase (py ''yo'')"
    using plain_responses_second by (simp only: list_all_iff)
  have v: "case_variant (py ''yo'') (py ''Yo'')"
    by (simp add: case_variant_def py_def)
  have sp: "list_all py_isspace [0x20]" "list_all py_isspace [0x0A]"
    by (simp_all add: space_examples space_0x0A)
  have n: "normalize_input (Some ([0x20] @ py ''Yo'' @ [0x0A])) = py ''yo''"
    by (rule variant_normalize(1) [OF plain v sp])
  have g: "is_hello_command_second ([0x20] @ py ''Yo'' @ [0x0A])"
    using key by (simp only: is_hello_command_second_folded n plain_phrase_folded [OF plain])
  have c: "0x131 \<notin> set (py ''yo'')" "0x17F \<notin> set (py ''yo'')"
    by (simp_all add: py_def)
  note inst = classified_greeting_has_response [of "[0x20] @ py ''Yo'' @ [0x0A]", unfolded n]
  show ?thesis
    using inst g c n by blast
qed

section \<open>The interactive loop\<close>

text \<open>
  C5, as stated, fails: the line U+017F a l u t (``salut'' with a long s) is in none of
  the three sets, so the classifier of the specification calls it unrecognized, but the
  loop of hello_second.py treats it as a greeting and writes a greeting line.
\<close>

theorem loop_classification_counterexample:
  "classify_spec (map fst responses_second) (normalize_input (Some (0x17F # py ''alut'')))
     = Unrecognized \<and>
   loop_body is_hello_command_second show_help_second show_greeting_second (0x17F # py ''alut'')
     = (show_greeting_second (0x17F # py ''alut''), True) \<and>
   loop_body is_hello_command_second show_help_second show_greeting_second (0x17F # py ''alut'')
     \<noteq> respond show_help_second show_greeting_second (0x17F # py ''alut'')
          (classify_spec (map fst responses_second)
             (normalize_input (Some (0x17F # py ''alut''))))"
proof -
  define x where "x = 0x17F # py ''alut''"
  have n: "normalize_input (Some x) = x"
    unfolding x_def by (rule normalize_long_s) (simp add: py_def)
  have "x \<noteq> []" by (simp add: x_def)
  then have ne: "py_strip x \<noteq> []"
    using n normalize_blank by metis
  have "py ''salut'' \<in> set (map fst responses_second)"
    by (simp add: responses_second_def)
  then have g: "is_hello_command_second x"
    by (simp add: is_hello_command_second_folded n) (simp add: x_def fold_extra_def py_def)
  have "plain_phrase k"
    if "k \<in> set (map fst responses_second) \<union> set exit_commands \<union> set help_commands" for k
    using plain_responses_second plain_exit_commands plain_help_commands that
    by (auto simp only: list_all_iff)
  moreover have "\<not> plain_phrase x"
    by (simp add: plain_phrase_def x_def)
  ultimately have out: "x \<notin> set (map fst responses_second)" "x \<notin> set exit_commands"
    "x \<notin> set help_commands"
    by blast+
  have c: "classify_spec (map fst responses_second) (normalize_input (Some x)) = Unrecognized"
    using out by (simp add: classify_spec_def n)
  have b: "loop_body is_hello_command_second show_help_second show_greeting_second x
     = (show_greeting_second x, True)"
    using out g ne by (simp add: loop_body_def is_exit_command_def is_help_command_def n)
  have "show_greeting_second x \<noteq> try_typing x"
    by (simp add: show_greeting_second_def greeting_line_def try_typing_def py_print_def)
  then have d: "loop_body is_hello_command_second show_help_second show_greeting_second x
     \<noteq> respond show_help_second show_greeting_second x
          (classify_spec (map fst responses_second) (normalize_input (Some x)))"
    using ne by (simp add: b c respond_def)
  from c b d show ?thesis unfolding x_def by blast
qed

text \<open>
  C5, amended. For every input line the loop tests, in this order, membership of the
  normalized input in the exit keywords (terminate), in the help keywords (show help),
  and membership in the phrase catalog of the normalized input with U+0131 read as \<open>i\<close>
  and U+017F read as \<open>s\<close> (greeting match); otherwise the input is unrecognized. An
  input of an earlier set is never classified by a later test. For a normalized
  input without U+0131 and U+017F this is the classification of the specification.
\<close>

theorem loop_classification_order:
  "loop_body is_hello_command help greet s
     = respond help greet s (classify_folded (map fst responses) (normalize_input (Some s))) \<and>
   loop_body is_hello_command_second help greet s
     = respond help greet s
         (classify_folded (map fst responses_second) (normalize_input (Some s))) \<and>
   (0x131 \<notin> set n \<and> 0x17F \<notin> set n \<longrightarrow> classify_folded catalog n = classify_spec catalog n)"
proof (intro conjI impI)
  show "loop_body is_hello_command help greet s
     = respond help greet s (classify_folded (map fst responses) (normalize_input (Some s)))"
    by (rule loop_body_classify [OF is_hello_command_folded empty_not_command(3)])
  show "loop_body is_hello_command_second help greet s
     = respond help greet s
         (classify_folded (map fst responses_second) (normalize_input (Some s)))"
    by (rule loop_body_classify [OF is_hello_command_second_folded empty_not_command(4)])
next
  assume "0x131 \<notin> set n \<and> 0x17F \<notin> set n"
  then have "map fold_extra n = n" by (simp add: fold_extra_id)
  then show "classify_folded catalog n = classify_spec catalog n"
    by (simp add: classify_folded_def classify_spec_def)
qed

theorem loop_classification_order_witness:
  "0x131 \<notin> set (py ''bye'') \<and> 0x17F \<notin> set (py ''bye'') \<and>
   classify_folded (map fst responses) (py ''bye'')
     = classify_spec (map fst responses) (py ''bye'') \<and>
   classify_spec (map fst responses) (py ''bye'') = Terminate \<and>
   normalize_input (Some (py ''bye'')) = py ''bye'' \<and>
   loop_body is_hello_command show_help show_greeting (py ''bye'')
     = respond show_help show_greeting (py ''bye'') Terminate"
proof -
  have c: "0x131 \<notin> set (py ''bye'')" "0x17F \<notin> set (py ''bye'')"
    by (simp_all add: py_def)
  have k: "py ''bye'' \<in> set exit_commands"
    by (simp add: exit_commands_def)
  then have "plain_phrase (py ''bye'')"
    using plain_exit_commands by (simp only: list_all_iff)
  then have n: "normalize_input (Some (py ''bye'')) = py ''bye''"
    by (rule plain_phrase_normalized)
  have t: "classify_spec (map fst responses) (py ''bye'') = Terminate"
    using k by (simp add: classify_spec_def)
  note inst = loop_classification_order
                [of show_help show_greeting "py ''bye''" "py ''bye''" "map fst responses",
                 unfolded n]
  show ?thesis
    using inst c n t by metis
qed

section \<open>The control words\<close>

text \<open>
  C6. For every exit keyword (exit, quit, q, bye, goodbye, stop, end), every variant of
  it in letter case, with any whitespace before and after, is an exit command: the
  loop writes the farewell and stops, so that nothing after this line is read.
\<close>

theorem exit_keyword_terminates:
  "set exit_commands =
     {py ''exit'', py ''quit'', py ''q'', py ''bye'', py ''goodbye'', py ''stop'', py ''end''} \<and>
   (k \<in> set exit_commands \<and> case_variant k v \<and> list_all py_isspace l \<and> list_all py_isspace r
    \<longrightarrow> is_exit_command (l @ v @ r) \<and>
        loop_body is_hello help greet (l @ v @ r) = (farewell, False) \<and>
        main_loop is_hello help greet (Line (l @ v @ r) # evs) = prompt @ farewell)"
proof (intro conjI impI)
  show "set exit_commands =
     {py ''exit'', py ''quit'', py ''q'', py ''bye'', py ''goodbye'', py ''stop'', py ''end''}"
    by (simp add: exit_commands_def)
next
  assume h: "k \<in> set exit_commands \<and> case_variant k v \<and>
             list_all py_isspace l \<and> list_all py_isspace r"
  then have plain: "plain_phrase k"
    using plain_exit_commands by (simp add: list_all_iff)
  from h have n: "normalize_input (Some (l @ v @ r)) = k"
    and ne: "py_strip (l @ v @ r) \<noteq> []"
    using variant_normalize [OF plain] by simp_all
  show e: "is_exit_command (l @ v @ r)"
    using h by (simp add: is_exit_command_def n)
  show b: "loop_body is_hello help greet (l @ v @ r) = (farewell, False)"
    using e ne by (simp add: loop_body_def)
  show "main_loop is_hello help greet (Line (l @ v @ r) # evs) = prompt @ farewell"
    using b by (rule main_loop_break)
qed

theorem exit_keyword_terminates_witness:
  "py ''quit'' \<in> set exit_commands \<and> case_variant (py ''quit'') (py ''Quit'') \<and>
   list_all py_isspace [0x20, 0x09] \<and> list_all py_isspace [0x3000] \<and>
   is_exit_command ([0x20, 0x09] @ py ''Quit'' @ [0x3000]) \<and>
   loop_body is_hello_command show_help show_greeting ([0x20, 0x09] @ py ''Quit'' @ [0x3000])
     = (farewell, False) \<and>
   main_loop is_hello_command show_help show_greeting
     [Line ([0x20, 0x09] @ py ''Quit'' @ [0x3000]), Line (py ''hello'')] = prompt @ farewell \<and>
   py ''bye'' \<in> set exit_commands \<and> case_variant (py ''bye'') (py ''BYE'') \<and>
   is_exit_command ([] @ py ''BYE'' @ [])"
proof -
  have k: "py ''quit'' \<in> set exit_commands" "py ''bye'' \<in> set exit_commands"
    by (simp_all add: exit_commands_def)
  have v: "case_variant (py ''quit'') (py ''Quit'')" "case_variant (py ''bye'') (py ''BYE'')"
    by (simp_all add: case_variant_def py_def)
  have sp: "list_all py_isspace [0x20, 0x09]" "list_all py_isspace [0x3000]"
    "list_all py_isspace []"
    by (simp_all add: space_examples)
  show ?thesis
    using exit_keyword_terminates
            [of "py ''quit''" "py ''Quit''" "[0x20, 0x09]" "[0x3000]"
                is_hello_command show_help show_greeting "[Line (py ''hello'')]"]
          exit_keyword_terminates
            [of "py ''bye''" "py ''BYE''" "[]" "[]" is_hello_command show_help show_greeting "[]"]
          k v sp
    by simp
qed

text \<open>
  C7. \<open>is_help_command\<close> holds exactly when the normalized input is one of the help
  keywords help, ?, commands, info, usage; it holds for the inputs \<open>help\<close> and \<open>?\<close>; and
  for an input for which it holds the loop writes the help listing and goes on with the
  next line.
\<close>

theorem help_keyword_shows_help:
  "is_help_command s =
     (normalize_input (Some s)
        \<in> {py ''help'', py ''?'', py ''commands'', py ''info'', py ''usage''}) \<and>
   is_help_command (py ''help'') \<and> is_help_command (py ''?'') \<and>
   (is_help_command s \<longrightarrow>
      loop_body is_hello help greet s = (help, True) \<and>
      main_loop is_hello help greet (Line s # evs)
        = prompt @ help @ main_loop is_hello help greet evs)"
proof (intro conjI impI)
  show "is_help_command s =
     (normalize_input (Some s)
        \<in> {py ''help'', py ''?'', py ''commands'', py ''info'', py ''usage''})"
    by (simp add: is_help_command_def help_commands_def Let_def)
next
  have "plain_phrase (py ''help'')" "plain_phrase (py ''?'')"
    using plain_help_commands by (simp_all add: help_commands_def)
  then show "is_help_command (py ''help'')" "is_help_command (py ''?'')"
    by (simp_all add: is_help_command_def plain_phrase_normalized help_commands_def)
next
  assume h: "is_help_command s"
  then have n: "normalize_input (Some s) \<in> set help_commands"
    by (simp add: is_help_command_def)
  then have "normalize_input (Some s) \<noteq> []"
    using empty_not_command(2) by auto
  then have ne: "py_strip s \<noteq> []"
    using normalize_blank by blast
  have x: "\<not> is_exit_command s"
    using n exit_help_disjoint by (auto simp: is_exit_command_def)
  show b: "loop_body is_hello help greet s = (help, True)"
    using h ne x by (simp add: loop_body_def)
  show "main_loop is_hello help greet (Line s # evs)
        = prompt @ help @ main_loop is_hello help greet evs"
    using b by (rule main_loop_continue)
qed

theorem help_keyword_shows_help_witness:
  "is_help_command (py ''?'') \<and>
   normalize_input (Some (py ''?'')) = py ''?'' \<and>
   loop_body is_hello_command show_help show_greeting (py ''?'') = (show_help, True) \<and>
   main_loop is_hello_command show_help show_greeting [Line (py ''?'')]
     = prompt @ show_help @ prompt @ py_print ([0x0A, 0x0A] @ py ''Goodbye!'')"
proof -
  have "plain_phrase (py ''?'')"
    using plain_help_commands by (simp add: help_commands_def)
  then have n: "normalize_input (Some (py ''?'')) = py ''?''"
    by (rule plain_phrase_normalized)
  show ?thesis
    using help_keyword_shows_help
            [of "py ''?''" is_hello_command show_help show_greeting "[]"] n
    by (simp add: get_user_input_def)
qed

text \<open>
  C8. An input that is empty or consists of whitespace only is not an exit command, not
  a help command and not a greeting (in either script); the loop writes the prompt to
  enter something and goes on with the next line. Every function involved is total, so
  there is no failure.
\<close>

theorem blank_input_unrecognized:
  "list_all py_isspace s \<Longrightarrow>
     \<not> is_exit_command s \<and> \<not> is_help_command s \<and>
     \<not> is_hello_command s \<and> \<not> is_hello_command_second s \<and>
     loop_body is_hello help greet s = (please_enter, True) \<and>
     main_loop is_hello help greet (Line s # evs)
       = prompt @ please_enter @ main_loop is_hello help greet evs"
proof -
  assume "list_all py_isspace s"
  then have st: "py_strip s = []" by (rule py_strip_spaces)
  then have n: "normalize_input (Some s) = []" by (rule normalize_blank)
  have b: "loop_body is_hello help greet s = (please_enter, True)"
    using st by (simp add: loop_body_def)
  have "main_loop is_hello help greet (Line s # evs)
       = prompt @ please_enter @ main_loop is_hello help greet evs"
    using b by (rule main_loop_continue)
  then show ?thesis
    using b empty_not_command
    by (simp add: is_exit_command_def is_help_command_def is_hello_command_folded
        is_hello_command_second_folded n)
qed

theorem blank_input_unrecognized_witness:
  "list_all py_isspace [0x20, 0x09, 0x3000] \<and>
   \<not> is_exit_command [0x20, 0x09, 0x3000] \<and> \<not> is_help_command [0x20, 0x09, 0x3000] \<and>
   \<not> is_hello_command [0x20, 0x09, 0x3000] \<and> \<not> is_hello_command_second [0x20, 0x09, 0x3000] \<and>
   loop_body is_hello_command_second show_help_second show_greeting_second [0x20, 0x09, 0x3000]
     = (please_enter, True) \<and>
   main_loop is_hello_command_second show_help_second show_greeting_second
       [Line [0x20, 0x09, 0x3000], Line []]
     = prompt @ please_enter @ prompt @ please_enter @ prompt
         @ py_print ([0x0A, 0x0A] @ py ''Goodbye!'')"
proof -
  have sp: "list_all py_isspace [0x20, 0x09, 0x3000]" "list_all py_isspace []"
    by (simp_all add: space_examples)
  show ?thesis
    using blank_input_unrecognized
            [OF sp(1), of is_hello_command_second show_help_second show_greeting_second
               "[Line []]"]
          blank_input_unrecognized
            [OF sp(2), of is_hello_command_second show_help_second show_greeting_second "[]"]
          sp(1)
    by (simp add: get_user_input_def)
qed

section \<open>The job-status endpoint\<close>

text \<open>
  C1. The answer to \<open>GET /job\<close> depends on the request only through the value of the
  \<open>jobname\<close> parameter: \<open>normal\<close> gives body \<open>0\<close> and status 200, \<open>error\<close> gives body
  \<open>1\<close> and status 200, \<open>timeout\<close> sleeps 3600 seconds and then gives body \<open>0\<close> and
  status 200, and every other value gives body \<open>Invalid jobname\<close> and status 400.
\<close>

theorem job_handler_by_jobname:
  "(args_get (args req) (py ''jobname'') = Some (py ''normal'') \<longrightarrow>
      get_job req = \<lparr>effects = [], body = py ''0'', status = 200\<rparr>) \<and>
   (args_get (args req) (py ''jobname'') = Some (py ''error'') \<longrightarrow>
      get_job req = \<lparr>effects = [], body = py ''1'', status = 200\<rparr>) \<and>
   (args_get (args req) (py ''jobname'') = Some (py ''timeout'') \<longrightarrow>
      get_job req = \<lparr>effects = [Sleep 3600], body = py ''0'', status = 200\<rparr>) \<and>
   (args_get (args req) (py ''jobname'') \<notin>
        {Some (py ''normal''), Some (py ''error''), Some (py ''timeout'')} \<longrightarrow>
      get_job req = \<lparr>effects = [], body = py ''Invalid jobname'', status = 400\<rparr>) \<and>
   (args_get (args req) (py ''jobname'') = args_get (args req') (py ''jobname'') \<longrightarrow>
      get_job req = get_job req')"
  by (simp add: get_job_def job_handler_def make_response_def Let_def py_inject)

theorem job_handler_by_jobname_witness:
  "get_job \<lparr>args = [(py ''jobname'', py ''normal'')]\<rparr>
     = \<lparr>effects = [], body = py ''0'', status = 200\<rparr> \<and>
   get_job \<lparr>args = [(py ''jobname'', py ''error'')]\<rparr>
     = \<lparr>effects = [], body = py ''1'', status = 200\<rparr> \<and>
   get_job \<lparr>args = [(py ''x'', py ''1''), (py ''jobname'', py ''timeout'')]\<rparr>
     = \<lparr>effects = [Sleep 3600], body = py ''0'', status = 200\<rparr> \<and>
   get_job \<lparr>args = [(py ''jobname'', py ''bogus'')]\<rparr>
     = \<lparr>effects = [], body = py ''Invalid jobname'', status = 400\<rparr> \<and>
   get_job \<lparr>args = [(py ''jobname'', py ''error''), (py ''jobname'', py ''normal'')]\<rparr>
     = get_job \<lparr>args = [(py ''jobname'', py ''error'')]\<rparr>"
  using job_handler_by_jobname
          [of "\<lparr>args = [(py ''jobname'', py ''normal'')]\<rparr>"]
        job_handler_by_jobname
          [of "\<lparr>args = [(py ''jobname'', py ''error'')]\<rparr>"]
        job_handler_by_jobname
          [of "\<lparr>args = [(py ''x'', py ''1''), (py ''jobname'', py ''timeout'')]\<rparr>"]
        job_handler_by_jobname
          [of "\<lparr>args = [(py ''jobname'', py ''bogus'')]\<rparr>"]
        job_handler_by_jobname
          [of "\<lparr>args = [(py ''jobname'', py ''error''), (py ''jobname'', py ''normal'')]\<rparr>"
              "\<lparr>args = [(py ''jobname'', py ''error'')]\<rparr>"]
  by (simp add: py_inject)

text \<open>
  C10. When the query string has no \<open>jobname\<close> parameter at all, \<open>request.args.get\<close>
  gives \<open>None\<close>, which equals none of the three job names, and the answer is body
  \<open>Invalid jobname\<close> with status 400.
\<close>

theorem job_handler_jobname_absent:
  "py ''jobname'' \<notin> fst ` set (args req) \<Longrightarrow>
     args_get (args req) (py ''jobname'') = None \<and>
     get_job req = \<lparr>effects = [], body = py ''Invalid jobname'', status = 400\<rparr>"
  by (simp add: args_get_absent get_job_def job_handler_def make_response_def)

theorem job_handler_jobname_absent_witness:
  "py ''jobname'' \<notin> fst ` set (args \<lparr>args = [(py ''job'', py ''normal'')]\<rparr>) \<and>
   args_get (args \<lparr>args = [(py ''job'', py ''normal'')]\<rparr>) (py ''jobname'') = None \<and>
   get_job \<lparr>args = [(py ''job'', py ''normal'')]\<rparr>
     = \<lparr>effects = [], body = py ''Invalid jobname'', status = 400\<rparr>"
proof -
  have h: "py ''jobname'' \<notin> fst ` set (args \<lparr>args = [(py ''job'', py ''normal'')]\<rparr>)"
    by (simp add: py_inject)
  show ?thesis
    using h job_handler_jobname_absent [OF h] by simp
qed

end
